theory Spec2Isabelle
  imports Complex_Main "HOL-Library.Extended_Nat"
begin

section \<open>Numbers\<close>

text \<open>
  The program is TypeScript; its \<^verbatim>\<open>number\<close> values are modelled as exact reals. A value
  that may be \<^verbatim>\<open>undefined\<close>, \<^verbatim>\<open>null\<close> or \<^verbatim>\<open>NaN\<close> where the code tests for it is an
  \<open>option\<close> (\<open>None\<close> for all three), and the one place that produces \<^verbatim>\<open>Infinity\<close>
  (the nearest-point search) has a type of its own for it.
\<close>

definition atan2 :: "real \<Rightarrow> real \<Rightarrow> real" where
  "atan2 y x =
     (if 0 < x then arctan (y / x)
      else if x < 0 \<and> 0 \<le> y then arctan (y / x) + pi
      else if x < 0 \<and> y < 0 then arctan (y / x) - pi
      else if 0 < y then pi / 2
      else if y < 0 then - (pi / 2)
      else 0)"

text \<open>A coordinate pair (\<^verbatim>\<open>LatLng\<close>, \<^verbatim>\<open>LocationType\<close>, \<^verbatim>\<open>Coordinate\<close> in the sources).\<close>

record LatLng =
  latitude :: real
  longitude :: real

section \<open>utils/LocationUtils.ts\<close>

record LocationPoint = LatLng +
  timestamp :: real
  accuracy :: "real option"

record TrackingResult =
  distance :: real
  totalDistance :: real
  totalDistanceKm :: real
  res_latitude :: real
  res_longitude :: real

definition isValidLocation :: "real option \<Rightarrow> real option \<Rightarrow> bool" where
  "isValidLocation lat lng = (lat \<noteq> None \<and> lng \<noteq> None)"

definition calculateDistance :: "real \<Rightarrow> real \<Rightarrow> real \<Rightarrow> real \<Rightarrow> real" where
  "calculateDistance lat1 lon1 lat2 lon2 =
     (let R = 6371000;
          dLat = (lat2 - lat1) * pi / 180;
          dLon = (lon2 - lon1) * pi / 180;
          a = sin (dLat / 2) * sin (dLat / 2) +
              cos (lat1 * pi / 180) * cos (lat2 * pi / 180) *
              sin (dLon / 2) * sin (dLon / 2);
          c = 2 * atan2 (sqrt a) (sqrt (1 - a))
      in R * c)"

text \<open>The fields of a \<^verbatim>\<open>LocationTracker\<close> instance.\<close>

record LocationTracker =
  lastValidLocation :: "LocationPoint option"
  trk_totalDistance :: real
  locationBuffer :: "LocationPoint list"

definition minDistanceThreshold :: real where "minDistanceThreshold = 5"
definition maxSpeedThreshold :: real where "maxSpeedThreshold = 50"
definition maxAccuracyThreshold :: real where "maxAccuracyThreshold = 40"
definition smoothingBufferSize :: nat where "smoothingBufferSize = 3"

definition newTracker :: "real \<Rightarrow> LocationTracker" where
  "newTracker initialDistance =
     \<lparr>lastValidLocation = None, trk_totalDistance = initialDistance, locationBuffer = []\<rparr>"

text \<open>\<^verbatim>\<open>push\<close> followed by the conditional \<^verbatim>\<open>shift\<close>.\<close>

definition pushBuffer :: "LocationPoint list \<Rightarrow> LocationPoint \<Rightarrow> LocationPoint list" where
  "pushBuffer buf p =
     (let b = buf @ [p] in if length b > smoothingBufferSize then tl b else b)"

definition smoothed :: "(LocationPoint \<Rightarrow> real) \<Rightarrow> LocationPoint list \<Rightarrow> real \<Rightarrow> real" where
  "smoothed f buf new =
     (if length buf > 0 then foldl (\<lambda>s p. s + f p) 0 buf / real (length buf) else new)"

text \<open>
  \<^verbatim>\<open>processLocation\<close>: the result is \<open>None\<close> for \<^verbatim>\<open>null\<close>, paired with the tracker
  after the call.
\<close>

definition processLocation ::
  "LocationTracker \<Rightarrow> real option \<Rightarrow> real option \<Rightarrow> real \<Rightarrow> real option
     \<Rightarrow> TrackingResult option \<times> LocationTracker" where
  "processLocation t newLat newLng ts acc =
     (if \<not> isValidLocation newLat newLng then (None, t)
      else if (case acc of None \<Rightarrow> False | Some a \<Rightarrow> a > maxAccuracyThreshold) then (None, t)
      else
        let lat = the newLat; lng = the newLng;
            buf = pushBuffer (locationBuffer t)
                    \<lparr>latitude = lat, longitude = lng, timestamp = ts, accuracy = acc\<rparr>;
            t1 = t\<lparr>locationBuffer := buf\<rparr>;
            smoothedLat = smoothed latitude buf lat;
            smoothedLng = smoothed longitude buf lng
        in case lastValidLocation t1 of
             None \<Rightarrow>
               (Some \<lparr>distance = 0, totalDistance = trk_totalDistance t1,
                      totalDistanceKm = trk_totalDistance t1 / 1000,
                      res_latitude = smoothedLat, res_longitude = smoothedLng\<rparr>,
                t1\<lparr>lastValidLocation :=
                      Some \<lparr>latitude = smoothedLat, longitude = smoothedLng,
                            timestamp = ts, accuracy = acc\<rparr>\<rparr>)
           | Some lastLoc \<Rightarrow>
               let dist = calculateDistance (latitude lastLoc) (longitude lastLoc)
                            smoothedLat smoothedLng;
                   timeDiff = (ts - timestamp lastLoc) / 1000;
                   speed = (if timeDiff > 0 then dist / timeDiff else 0)
               in if dist < minDistanceThreshold then (None, t1)
                  else if speed > maxSpeedThreshold then (None, t1)
                  else
                    let total = trk_totalDistance t1 + dist
                    in (Some \<lparr>distance = dist, totalDistance = total,
                               totalDistanceKm = total / 1000,
                               res_latitude = smoothedLat, res_longitude = smoothedLng\<rparr>,
                        t1\<lparr>trk_totalDistance := total,
                           lastValidLocation :=
                             Some \<lparr>latitude = smoothedLat, longitude = smoothedLng,
                                   timestamp = ts, accuracy = acc\<rparr>\<rparr>))"


definition getCurrentDistance :: "LocationTracker \<Rightarrow> real" where
  "getCurrentDistance t = trk_totalDistance t"

text \<open>
  A sequence of \<^verbatim>\<open>processLocation\<close> calls on one tracker, with no \<^verbatim>\<open>reset\<close> between
  them; a call is its four arguments.
\<close>

type_synonym gpsFix = "real option \<times> real option \<times> real \<times> real option"

definition processFix :: "LocationTracker \<Rightarrow> gpsFix \<Rightarrow> LocationTracker" where
  "processFix t f = (case f of (lat, lng, ts, acc) \<Rightarrow> snd (processLocation t lat lng ts acc))"

definition processAll :: "LocationTracker \<Rightarrow> gpsFix list \<Rightarrow> LocationTracker" where
  "processAll t fs = foldl processFix t fs"

text \<open>A tracker that has accepted one fix at the origin.\<close>

definition jitterTracker :: LocationTracker where
  "jitterTracker =
     \<lparr>lastValidLocation =
        Some \<lparr>latitude = 0, longitude = 0, timestamp = 0, accuracy = None\<rparr>,
      trk_totalDistance = 0,
      locationBuffer = [\<lparr>latitude = 0, longitude = 0, timestamp = 0, accuracy = None\<rparr>]\<rparr>"


section \<open>RouteService.ts\<close>

definition getDistanceInMeters :: "LatLng \<Rightarrow> LatLng \<Rightarrow> real" where
  "getDistanceInMeters a b =
     (let R = 6371000;
          dLat = ((latitude b - latitude a) * pi) / 180;
          dLon = ((longitude b - longitude a) * pi) / 180;
          lat1 = (latitude a * pi) / 180;
          lat2 = (latitude b * pi) / 180;
          h = sin (dLat / 2) * sin (dLat / 2) +
              cos lat1 * cos lat2 * sin (dLon / 2) * sin (dLon / 2);
          c = 2 * atan2 (sqrt h) (sqrt (1 - h))
      in R * c)"

text \<open>A distance that may be \<^verbatim>\<open>Infinity\<close>, the initial \<^verbatim>\<open>minDistance\<close> of the search.\<close>

datatype dist = Fin real | Infinity

fun distLess :: "real \<Rightarrow> dist \<Rightarrow> bool" where
  "distLess d Infinity = True"
| "distLess d (Fin m) = (d < m)"

text \<open>The object \<^verbatim>\<open>{ index, distance }\<close> returned by the search.\<close>

record NearestPoint =
  index :: nat
  np_distance :: dist

text \<open>
  One iteration of the two \<^verbatim>\<open>for\<close> loops of \<^verbatim>\<open>findNearestPointOnRoute\<close>, on the pair
  \<^verbatim>\<open>(minDistance, nearestIndex)\<close>, and a loop from \<open>a\<close> up to \<open>b\<close> (exclusive).
\<close>

definition scanStep :: "LatLng \<Rightarrow> LatLng list \<Rightarrow> dist \<times> nat \<Rightarrow> nat \<Rightarrow> dist \<times> nat" where
  "scanStep driverLocation route acc i =
     (let d = getDistanceInMeters driverLocation (route ! i)
      in if distLess d (fst acc) then (Fin d, i) else acc)"

definition scanRoute ::
  "LatLng \<Rightarrow> LatLng list \<Rightarrow> nat \<Rightarrow> nat \<Rightarrow> dist \<times> nat \<Rightarrow> dist \<times> nat" where
  "scanRoute driverLocation route a b acc = foldl (scanStep driverLocation route) acc [a..<b]"

text \<open>
  Indices and the search radius are array positions and counts: natural numbers, so that
  \<^verbatim>\<open>Math.max(0, lastKnownIndex - 5)\<close> is the truncating subtraction, and
  \<^verbatim>\<open>nearestIndex >= searchEnd - 1\<close> is written with the 1 on the other side.
\<close>

definition defaultSearchRadius :: nat where "defaultSearchRadius = 100"

definition findNearestPointOnRoute ::
  "LatLng \<Rightarrow> LatLng list \<Rightarrow> nat \<Rightarrow> nat \<Rightarrow> NearestPoint" where
  "findNearestPointOnRoute driverLocation route lastKnownIndex searchRadius =
     (if length route = 0 then \<lparr>index = 0, np_distance = Infinity\<rparr>
      else
        let searchStart = lastKnownIndex - 5;
            searchEnd = min (length route) (lastKnownIndex + searchRadius);
            r1 = scanRoute driverLocation route searchStart searchEnd (Infinity, lastKnownIndex);
            r2 = (if snd r1 + 1 \<ge> searchEnd \<and> searchEnd < length route
                  then scanRoute driverLocation route searchEnd (length route) r1
                  else r1)
        in \<lparr>index = snd r2, np_distance = fst r2\<rparr>)"

text \<open>\<^verbatim>\<open>distance > thresholdMeters\<close>, for a distance that may be \<^verbatim>\<open>Infinity\<close>.\<close>

fun distGreater :: "dist \<Rightarrow> real \<Rightarrow> bool" where
  "distGreater Infinity t = True"
| "distGreater (Fin d) t = (d > t)"

record OffRouteCheck =
  isOffRoute :: bool
  off_distance :: dist
  off_nearestIndex :: nat

definition isDriverOffRoute :: "LatLng \<Rightarrow> LatLng list \<Rightarrow> real \<Rightarrow> nat \<Rightarrow> OffRouteCheck" where
  "isDriverOffRoute driverLocation route thresholdMeters lastKnownIndex =
     (let np = findNearestPointOnRoute driverLocation route lastKnownIndex defaultSearchRadius
      in \<lparr>isOffRoute = distGreater (np_distance np) thresholdMeters,
          off_distance = np_distance np,
          off_nearestIndex = index np\<rparr>)"

definition projectPointOnSegment :: "LatLng \<Rightarrow> LatLng \<Rightarrow> LatLng \<Rightarrow> LatLng" where
  "projectPointOnSegment point segStart segEnd =
     (let dx = longitude segEnd - longitude segStart;
          dy = latitude segEnd - latitude segStart
      in if dx = 0 \<and> dy = 0 then segStart
         else
           let t = max 0 (min 1
                     (((longitude point - longitude segStart) * dx +
                       (latitude point - latitude segStart) * dy) / (dx * dx + dy * dy)))
           in \<lparr>latitude = latitude segStart + t * dy,
               longitude = longitude segStart + t * dx\<rparr>)"

definition getInterpolatedDriverPosition :: "LatLng \<Rightarrow> LatLng list \<Rightarrow> nat \<Rightarrow> LatLng" where
  "getInterpolatedDriverPosition driverLocation route nearestIdx =
     (if length route < 2 \<or> nearestIdx \<ge> length route then driverLocation
      else
        let nextIndex = min (length route - 1) (nearestIdx + 1)
        in projectPointOnSegment driverLocation (route ! nearestIdx) (route ! nextIndex))"

record RouteSegments =
  travelled :: "LatLng list"
  remaining :: "LatLng list"
  progress :: real
  nearestIndex :: nat
  distanceToRoute :: dist

definition splitRouteAtDriver :: "LatLng \<Rightarrow> LatLng list \<Rightarrow> nat \<Rightarrow> RouteSegments" where
  "splitRouteAtDriver driverLocation fullRoute lastNearestIndex =
     (if length fullRoute < 2
      then \<lparr>travelled = [], remaining = fullRoute, progress = 0, nearestIndex = 0,
            distanceToRoute = Fin 0\<rparr>
      else
        let np = findNearestPointOnRoute driverLocation fullRoute lastNearestIndex
                   defaultSearchRadius;
            interpolatedPosition =
              getInterpolatedDriverPosition driverLocation fullRoute (index np);
            progress = (real (index np) / real (length fullRoute - 1)) * 100
        in \<lparr>travelled = take (index np + 1) fullRoute @ [interpolatedPosition],
            remaining = interpolatedPosition # drop (index np + 1) fullRoute,
            progress = min 100 (max 0 progress),
            nearestIndex = index np,
            distanceToRoute = np_distance np\<rparr>)"

text \<open>The last and the first element of an array, \<open>None\<close> when it is empty.\<close>

definition lastOpt :: "'a list \<Rightarrow> 'a option" where
  "lastOpt xs = (if xs = [] then None else Some (last xs))"

definition firstOpt :: "'a list \<Rightarrow> 'a option" where
  "firstOpt xs = (case xs of [] \<Rightarrow> None | x # _ \<Rightarrow> Some x)"

definition perpendicularDistance :: "LatLng \<Rightarrow> LatLng \<Rightarrow> LatLng \<Rightarrow> real" where
  "perpendicularDistance point lineStart lineEnd =
     (let dx = longitude lineEnd - longitude lineStart;
          dy = latitude lineEnd - latitude lineStart
      in if dx = 0 \<and> dy = 0 then getDistanceInMeters point lineStart
         else
           let t = ((longitude point - longitude lineStart) * dx +
                    (latitude point - latitude lineStart) * dy) / (dx * dx + dy * dy);
               closestPoint = \<lparr>latitude = latitude lineStart + t * dy,
                               longitude = longitude lineStart + t * dx\<rparr>
           in getDistanceInMeters point closestPoint)"

text \<open>
  The loop of \<^verbatim>\<open>simplifyRoute\<close> over the interior points, on the pair
  \<^verbatim>\<open>(maxDistance, maxIndex)\<close>.
\<close>

definition farStep :: "LatLng list \<Rightarrow> real \<times> nat \<Rightarrow> nat \<Rightarrow> real \<times> nat" where
  "farStep route acc i =
     (let d = perpendicularDistance (route ! i) (route ! 0) (route ! (length route - 1))
      in if d > fst acc then (d, i) else acc)"

definition farthest :: "LatLng list \<Rightarrow> real \<times> nat" where
  "farthest route = foldl (farStep route) (0, 0) [1..<length route - 1]"

definition defaultTolerance :: real where "defaultTolerance = 0.00005"

text \<open>
  \<^verbatim>\<open>simplifyRoute\<close> recurses on two slices of the route; a call that does not return
  has the value \<open>None\<close>.
\<close>

partial_function (option) simplifyRoute :: "LatLng list \<Rightarrow> real \<Rightarrow> LatLng list option" where
  "simplifyRoute route tolerance =
     (if length route \<le> 2 then Some route
      else
        let maxDistance = fst (farthest route);
            maxIndex = snd (farthest route)
        in if maxDistance > tolerance then
             Option.bind (simplifyRoute (take (maxIndex + 1) route) tolerance) (\<lambda>left.
             Option.bind (simplifyRoute (drop maxIndex route) tolerance) (\<lambda>right.
               Some (butlast left @ right)))
           else Some [route ! 0, route ! (length route - 1)])"

subsection \<open>Planar geometry of a segment\<close>

text \<open>
  The projection works on the coordinates as plane coordinates. \<open>pointAt a b s\<close> is the
  point of the line through \<open>a\<close> and \<open>b\<close> at parameter \<open>s\<close> (on the segment for \<open>s\<close> between
  0 and 1), \<open>sqDist\<close> the squared plane distance.
\<close>

definition sqDist :: "LatLng \<Rightarrow> LatLng \<Rightarrow> real" where
  "sqDist p q = (latitude p - latitude q)\<^sup>2 + (longitude p - longitude q)\<^sup>2"

definition pointAt :: "LatLng \<Rightarrow> LatLng \<Rightarrow> real \<Rightarrow> LatLng" where
  "pointAt a b s = \<lparr>latitude = latitude a + s * (latitude b - latitude a),
                    longitude = longitude a + s * (longitude b - longitude a)\<rparr>"

text \<open>
  A point on the line through two points (the cross product vanishes), and a route that is
  a straight line: its end points differ and every point is on the line through them.
\<close>

definition onLine :: "LatLng \<Rightarrow> LatLng \<Rightarrow> LatLng \<Rightarrow> bool" where
  "onLine lineStart lineEnd p =
     ((longitude p - longitude lineStart) * (latitude lineEnd - latitude lineStart) =
      (latitude p - latitude lineStart) * (longitude lineEnd - longitude lineStart))"

definition straightLine :: "LatLng list \<Rightarrow> bool" where
  "straightLine route =
     ((latitude (hd route) \<noteq> latitude (last route) \<or>
       longitude (hd route) \<noteq> longitude (last route)) \<and>
      list_all (onLine (hd route) (last route)) route)"

definition lineOf100 :: "LatLng list" where
  "lineOf100 = map (\<lambda>i. \<lparr>latitude = real i, longitude = 2 * real i\<rparr>) [0..<100]"

definition origin :: LatLng where
  "origin = \<lparr>latitude = 0, longitude = 0\<rparr>"

definition quarterTurn :: LatLng where
  "quarterTurn = \<lparr>latitude = 0, longitude = 90\<rparr>"

section \<open>utils/SmoothPolyline.ts\<close>

text \<open>
  The screen cuts the route at the driver with the \<^verbatim>\<open>splitRouteAtDriver\<close> of this module,
  not with the one of \<^verbatim>\<open>RouteService.ts\<close>. The functions that have a namesake there carry
  the suffix \<open>_smooth\<close>; the search looks 50 points ahead of its start index.
\<close>

definition getDistance :: "LatLng \<Rightarrow> LatLng \<Rightarrow> real" where
  "getDistance a b =
     (let R = 6371000;
          dLat = ((latitude b - latitude a) * pi) / 180;
          dLon = ((longitude b - longitude a) * pi) / 180;
          lat1 = (latitude a * pi) / 180;
          lat2 = (latitude b * pi) / 180;
          h = sin (dLat / 2) * sin (dLat / 2) +
              cos lat1 * cos lat2 * sin (dLon / 2) * sin (dLon / 2);
          c = 2 * atan2 (sqrt h) (sqrt (1 - h))
      in R * c)"

text \<open>One iteration of the two loops of \<^verbatim>\<open>findNearestPointIndex\<close>, and a loop.\<close>

definition nearStep :: "LatLng \<Rightarrow> LatLng list \<Rightarrow> dist \<times> nat \<Rightarrow> nat \<Rightarrow> dist \<times> nat" where
  "nearStep loc route acc i =
     (let d = getDistance loc (route ! i)
      in if distLess d (fst acc) then (Fin d, i) else acc)"

definition nearScan ::
  "LatLng \<Rightarrow> LatLng list \<Rightarrow> nat \<Rightarrow> nat \<Rightarrow> dist \<times> nat \<Rightarrow> dist \<times> nat" where
  "nearScan loc route a b acc = foldl (nearStep loc route) acc [a..<b]"

definition findNearestPointIndex :: "LatLng \<Rightarrow> LatLng list \<Rightarrow> nat \<Rightarrow> NearestPoint" where
  "findNearestPointIndex loc route startIndex =
     (if length route = 0 then \<lparr>index = 0, np_distance = Infinity\<rparr>
      else
        let searchStart = startIndex - 5;
            searchEnd = min (length route) (startIndex + 50);
            r1 = nearScan loc route searchStart searchEnd (Infinity, startIndex);
            r2 = (if snd r1 + 1 \<ge> searchEnd \<and> searchEnd < length route
                  then nearScan loc route searchEnd (length route) r1
                  else r1)
        in \<lparr>index = snd r2, np_distance = fst r2\<rparr>)"

definition projectPointOnSegment_smooth :: "LatLng \<Rightarrow> LatLng \<Rightarrow> LatLng \<Rightarrow> LatLng" where
  "projectPointOnSegment_smooth point segStart segEnd =
     (let dx = longitude segEnd - longitude segStart;
          dy = latitude segEnd - latitude segStart
      in if dx = 0 \<and> dy = 0 then segStart
         else
           let t = max 0 (min 1
                     (((longitude point - longitude segStart) * dx +
                       (latitude point - latitude segStart) * dy) / (dx * dx + dy * dy)))
           in \<lparr>latitude = latitude segStart + t * dy,
               longitude = longitude segStart + t * dx\<rparr>)"

text \<open>The index \<^verbatim>\<open>prevIndex\<close> that the function computes is not used by it.\<close>

definition getInterpolatedDriverPosition_smooth ::
  "LatLng \<Rightarrow> LatLng list \<Rightarrow> nat \<Rightarrow> LatLng" where
  "getInterpolatedDriverPosition_smooth driverLocation route nearestIdx =
     (if length route < 2 \<or> nearestIdx \<ge> length route then driverLocation
      else
        let nextIndex = min (length route - 1) (nearestIdx + 1)
        in projectPointOnSegment_smooth driverLocation (route ! nearestIdx) (route ! nextIndex))"

record RouteSegments_smooth =
  travelled_smooth :: "LatLng list"
  remaining_smooth :: "LatLng list"
  progress_smooth :: real
  nearestIndex_smooth :: nat

definition splitRouteAtDriver_smooth ::
  "LatLng \<Rightarrow> LatLng list \<Rightarrow> nat \<Rightarrow> RouteSegments_smooth" where
  "splitRouteAtDriver_smooth driverLocation fullRoute lastNearestIndex =
     (if length fullRoute < 2
      then \<lparr>travelled_smooth = [], remaining_smooth = fullRoute, progress_smooth = 0,
            nearestIndex_smooth = 0\<rparr>
      else
        let np = findNearestPointIndex driverLocation fullRoute lastNearestIndex;
            interpolatedPosition =
              getInterpolatedDriverPosition_smooth driverLocation fullRoute (index np);
            progress = (real (index np) / real (length fullRoute - 1)) * 100
        in \<lparr>travelled_smooth = take (index np + 1) fullRoute @ [interpolatedPosition],
            remaining_smooth = interpolatedPosition # drop (index np + 1) fullRoute,
            progress_smooth = min 100 (max 0 progress),
            nearestIndex_smooth = index np\<rparr>)"

section \<open>socket.ts\<close>

text \<open>The options the driver socket is created with.\<close>

record SocketOptions =
  autoConnect :: bool
  reconnection :: bool
  reconnectionAttempts :: enat
  reconnectionDelay :: nat
  reconnectionDelayMax :: nat
  timeout :: nat

definition socketOptions :: SocketOptions where
  "socketOptions =
     \<lparr>autoConnect = False, reconnection = True, reconnectionAttempts = \<infinity>,
      reconnectionDelay = 2000, reconnectionDelayMax = 10000, timeout = 30000\<rparr>"

text \<open>
  The \<^verbatim>\<open>disconnect\<close> handler: the delay in milliseconds of the \<^verbatim>\<open>socket.connect()\<close> it
  schedules, \<open>None\<close> when it schedules none.
\<close>

definition onDisconnect :: "bool \<Rightarrow> string \<Rightarrow> nat option" where
  "onDisconnect autoReconnectEnabled reason =
     (if autoReconnectEnabled \<and> reason = ''io server disconnect'' then Some 1000 else None)"

section \<open>Screen1.tsx\<close>

text \<open>
  The driver screen is one React component. Its state variables (the \<^verbatim>\<open>useState\<close> hooks)
  are the fields of the record \<open>Render\<close>: the values that one render of the component, and
  every closure made in that render, sees. The record \<open>Screen\<close> adds the refs of the
  component and what is outside of it: the socket, the native service, \<^verbatim>\<open>AsyncStorage\<close>,
  the messages emitted, the HTTP requests made, the alerts raised, and the continuations
  that are waiting (acknowledgement callbacks, timers, alert buttons).

  A handler is a function from the state before it runs to the state after. A state setter
  does not change what the running handler sees, a ref or the socket is read as it is, and a
  handler that awaits runs to its end before the next event. Which values a handler sees
  depends on where it comes from:

  \<^item> the handlers of the socket are registered again by an effect whenever
    \<^verbatim>\<open>location\<close>, \<^verbatim>\<open>driverId\<close>, \<^verbatim>\<open>driverName\<close>, \<^verbatim>\<open>ride\<close>, \<^verbatim>\<open>rideStatus\<close>, \<^verbatim>\<open>userData\<close>,
    \<^verbatim>\<open>isDriverOnline\<close> or \<^verbatim>\<open>driverVehicleType\<close> changes, and the buttons of the screen
    with every render: they read the current state, and so do the location handler, which
    reads refs, and the completion flow, which is memoised on \<^verbatim>\<open>ride\<close>, \<^verbatim>\<open>rideStatus\<close> and
    \<^verbatim>\<open>location\<close>;
  \<^item> \<^verbatim>\<open>handleRideRequest\<close> is memoised with \<^verbatim>\<open>useCallback\<close> on \<^verbatim>\<open>isDriverOnline\<close> and
    \<^verbatim>\<open>driverVehicleType\<close> only, so the buttons of the alert it raises run the
    \<^verbatim>\<open>acceptRide\<close> and \<^verbatim>\<open>rejectRide\<close> of the render in which it was memoised last. The
    field \<open>requestListener\<close> holds the handler that is registered for \<^verbatim>\<open>newRideRequest\<close>
    as the render of its closure. No handler of the model changes one of the two
    variables, so this render is the one that the starting state gives;
  \<^item> an acknowledgement callback, a \<^verbatim>\<open>connect\<close> handler or a timer is a closure of the
    render of the function that made it, and is kept with that render.

  The model follows the ride, its status, the accept lock, the OTP and completion flow and
  the route on the map. It leaves out animation, camera and logging, the passenger's live
  position, going online and offline, the registration of the driver on \<^verbatim>\<open>connect\<close>, the
  delayed request for the passenger's data after an accept, the start of the navigation
  half a second after a trip start and the delayed registration after a bill is closed.
  Titles of alerts are given without their pictographs. \<^verbatim>\<open>handleNotificationRideRequest\<close>
  is memoised like \<^verbatim>\<open>handleRideRequest\<close>, which it follows after one more check with the
  backend; it has no event of its own.
\<close>

datatype json = JUndefined | JNull | JBool bool | JNum real | JStr string
  | JObj "(string \<times> json) list"

definition jOptStr :: "string option \<Rightarrow> json" where
  "jOptStr v = (case v of None \<Rightarrow> JUndefined | Some x \<Rightarrow> JStr x)"

definition jLatLng :: "LatLng \<Rightarrow> json" where
  "jLatLng p = JObj [(''latitude'', JNum (latitude p)), (''longitude'', JNum (longitude p))]"

definition jLatLngShort :: "LatLng \<Rightarrow> json" where
  "jLatLngShort p = JObj [(''lat'', JNum (latitude p)), (''lng'', JNum (longitude p))]"

datatype RideStatus = Idle | OnTheWay | Accepted | Started | Completed

datatype DriverStatus = Offline | Online | OnRide

record Place = LatLng +
  address :: "string option"

text \<open>\<^verbatim>\<open>RideType\<close>; its field \<^verbatim>\<open>drop\<close> is \<open>dropoff\<close> here.\<close>

record RideType =
  rideId :: string
  otp :: "string option"
  pickup :: Place
  dropoff :: Place
  routeCoords :: "LatLng list option"
  userName :: "string option"
  userMobile :: "string option"
  ride_pricePerKm :: "real option"
  farePerKm :: "real option"

record UserDataType =
  name :: string
  mobile :: string
  ud_location :: Place
  userId :: "string option"
  rating :: "real option"

text \<open>
  The default text of \<^verbatim>\<open>calculation\<close> is a template over the distance, the price per
  kilometre and the fare; it is kept as its three arguments.
\<close>

datatype Calculation = CalcText string | CalcTemplate real real real

record BillDetails =
  bill_distance :: string
  travelTime :: string
  charge :: real
  bill_userName :: string
  bill_userMobile :: string
  baseFare :: real
  timeCharge :: real
  tax :: real
  bill_pricePerKm :: real
  calculation :: "Calculation option"
  pickupAddress :: string
  dropoffAddress :: string
  driverShare :: "real option"
  companyShare :: "real option"

text \<open>The object \<^verbatim>\<open>saveRideState\<close> writes under the key \<^verbatim>\<open>rideState\<close>.\<close>

record RideSnapshot =
  snap_ride :: "RideType option"
  snap_userData :: "UserDataType option"
  snap_rideStatus :: RideStatus
  snap_driverStatus :: DriverStatus
  snap_travelledKm :: real
  snap_distanceSinceOtp :: real
  snap_lastLocationBeforeOtp :: "LatLng option"
  snap_otpVerificationLocation :: "LatLng option"
  snap_fullRouteCoords :: "LatLng list"
  snap_visibleRouteCoords :: "LatLng list"
  snap_lastCoord :: "LatLng option"
  snap_riderDetailsVisible :: bool

record Render =
  ride :: "RideType option"
  rideStatus :: RideStatus
  driverStatus :: DriverStatus
  userData :: "UserDataType option"
  location :: "LatLng option"
  lastCoord :: "LatLng option"
  driverId :: string
  driverName :: string
  driverVehicleType :: "string option"
  isDriverOnline :: bool
  acceptButtonDisabled :: bool
  isAccepting :: bool
  pendingAcceptRideId :: "string option"
  isLoading :: bool
  enteredOtp :: string
  otpModalVisible :: bool
  otpVerifying :: bool
  otpVerified :: bool
  otpVerificationLocation :: "LatLng option"
  tripStartLocation :: "LatLng option"
  locationHistory :: "LatLng list"
  liveTripDistance :: real
  travelledKm :: real
  pricePerKm :: real
  fullRouteCoords :: "LatLng list"
  visibleRouteCoords :: "LatLng list"
  travelledRoute :: "LatLng list"
  remainingRoute :: "LatLng list"
  nearestPointIndex :: nat
  riderDetailsVisible :: bool
  showBillModal :: bool
  billDetails :: "BillDetails option"

text \<open>
  The refs \<^verbatim>\<open>isMounted\<close>, \<^verbatim>\<open>distanceSinceOtp\<close>, \<^verbatim>\<open>lastLocationBeforeOtp\<close> and
  \<^verbatim>\<open>navigationInterval\<close>, the flag \<^verbatim>\<open>socket.connected\<close>, the world outside, and what is
  waiting. The registered handler of ride requests is kept as the render in which it was
  memoised. An open ride-request alert, a pending acknowledgement, a \<^verbatim>\<open>connect\<close> handler
  and a retry timer are kept with the id of their ride and the render of their closure, a
  trip-start timer with its start point and the render of its closure.
\<close>

record Screen = Render +
  isMounted :: bool
  socket_connected :: bool
  distanceSinceOtp :: real
  lastLocationBeforeOtp :: "LatLng option"
  navigationInterval :: bool
  storedRideState :: "RideSnapshot option"
  nativeAvailable :: bool
  nativeRideStatus :: "(string \<times> string) list"
  emitted :: "(string \<times> json) list"
  requests :: "(string \<times> json) list"
  alerts :: "(string \<times> string) list"
  reconnectCalls :: nat
  requestListener :: "Render option"
  rideAlerts :: "(string \<times> Render) list"
  pendingAccepts :: "(string \<times> Render) list"
  connectHandlers :: "(string \<times> Render) list"
  retryTimers :: "(string \<times> Render) list"
  tripStartTimers :: "(LatLng \<times> Render) list"
  completeDialogs :: "LatLng list"
  completionRequests :: "LatLng list"
  completionErrors :: "LatLng list"

text \<open>The values that the render of a state shows to the closures made in it.\<close>

definition rendered :: "Screen \<Rightarrow> Render" where
  "rendered s =
     \<lparr>ride = ride s, rideStatus = rideStatus s, driverStatus = driverStatus s,
      userData = userData s, location = location s, lastCoord = lastCoord s,
      driverId = driverId s, driverName = driverName s,
      driverVehicleType = driverVehicleType s, isDriverOnline = isDriverOnline s,
      acceptButtonDisabled = acceptButtonDisabled s, isAccepting = isAccepting s,
      pendingAcceptRideId = pendingAcceptRideId s, isLoading = isLoading s,
      enteredOtp = enteredOtp s, otpModalVisible = otpModalVisible s,
      otpVerifying = otpVerifying s, otpVerified = otpVerified s,
      otpVerificationLocation = otpVerificationLocation s,
      tripStartLocation = tripStartLocation s, locationHistory = locationHistory s,
      liveTripDistance = liveTripDistance s, travelledKm = travelledKm s,
      pricePerKm = pricePerKm s, fullRouteCoords = fullRouteCoords s,
      visibleRouteCoords = visibleRouteCoords s, travelledRoute = travelledRoute s,
      remainingRoute = remainingRoute s, nearestPointIndex = nearestPointIndex s,
      riderDetailsVisible = riderDetailsVisible s, showBillModal = showBillModal s,
      billDetails = billDetails s\<rparr>"

text \<open>
  The first render of the component, for a driver id, a driver name and a first position
  (the parameters of the route), and the component as it is first rendered.
\<close>

definition initialRender :: "string \<Rightarrow> string \<Rightarrow> LatLng option \<Rightarrow> Render" where
  "initialRender did dname loc =
     \<lparr>ride = None, rideStatus = Idle, driverStatus = Offline, userData = None,
      location = loc, lastCoord = None, driverId = did, driverName = dname,
      driverVehicleType = None, isDriverOnline = False,
      acceptButtonDisabled = False, isAccepting = False,
      pendingAcceptRideId = None, isLoading = False, enteredOtp = [],
      otpModalVisible = False, otpVerifying = False, otpVerified = False,
      otpVerificationLocation = None, tripStartLocation = None, locationHistory = [],
      liveTripDistance = 0, travelledKm = 0, pricePerKm = 0, fullRouteCoords = [],
      visibleRouteCoords = [], travelledRoute = [], remainingRoute = [],
      nearestPointIndex = 0, riderDetailsVisible = True, showBillModal = False,
      billDetails = None\<rparr>"

definition initialScreen :: "string \<Rightarrow> string \<Rightarrow> LatLng option \<Rightarrow> Screen" where
  "initialScreen did dname loc =
     \<lparr>ride = None, rideStatus = Idle, driverStatus = Offline, userData = None,
      location = loc, lastCoord = None, driverId = did, driverName = dname,
      driverVehicleType = None, isDriverOnline = False,
      acceptButtonDisabled = False, isAccepting = False,
      pendingAcceptRideId = None, isLoading = False, enteredOtp = [],
      otpModalVisible = False, otpVerifying = False, otpVerified = False,
      otpVerificationLocation = None, tripStartLocation = None, locationHistory = [],
      liveTripDistance = 0, travelledKm = 0, pricePerKm = 0, fullRouteCoords = [],
      visibleRouteCoords = [], travelledRoute = [], remainingRoute = [],
      nearestPointIndex = 0, riderDetailsVisible = True, showBillModal = False,
      billDetails = None,
      isMounted = True, socket_connected = False, distanceSinceOtp = 0,
      lastLocationBeforeOtp = None, navigationInterval = False, storedRideState = None,
      nativeAvailable = True, nativeRideStatus = [], emitted = [], requests = [],
      alerts = [], reconnectCalls = 0,
      requestListener = Some (initialRender did dname loc), rideAlerts = [],
      pendingAccepts = [], connectHandlers = [], retryTimers = [], tripStartTimers = [],
      completeDialogs = [], completionRequests = [], completionErrors = []\<rparr>"

text \<open>
  A render in which \<^verbatim>\<open>handleRideRequest\<close> is memoised again, as it is when
  \<^verbatim>\<open>isDriverOnline\<close> or \<^verbatim>\<open>driverVehicleType\<close> has changed, and registered by the effect.
\<close>

definition memoised :: "Screen \<Rightarrow> Screen" where
  "memoised s = s\<lparr>requestListener := Some (rendered s)\<rparr>"

subsection \<open>Helpers of the component\<close>

definition alert :: "string \<Rightarrow> string \<Rightarrow> Screen \<Rightarrow> Screen" where
  "alert title msg s = s\<lparr>alerts := alerts s @ [(title, msg)]\<rparr>"

definition emit :: "string \<Rightarrow> json \<Rightarrow> Screen \<Rightarrow> Screen" where
  "emit ev payload s = s\<lparr>emitted := emitted s @ [(ev, payload)]\<rparr>"

definition updateRideStatus :: "string \<Rightarrow> string \<Rightarrow> Screen \<Rightarrow> Screen" where
  "updateRideStatus st rid s =
     (if nativeAvailable s then s\<lparr>nativeRideStatus := nativeRideStatus s @ [(st, rid)]\<rparr>
      else s)"

text \<open>\<^verbatim>\<open>ride?.rideId || ""\<close>\<close>

definition rideIdOrEmpty :: "Render \<Rightarrow> string" where
  "rideIdOrEmpty s = (case ride s of None \<Rightarrow> [] | Some r \<Rightarrow> rideId r)"

definition hideRiderDetails :: "Screen \<Rightarrow> Screen" where
  "hideRiderDetails s = s\<lparr>riderDetailsVisible := False\<rparr>"

definition stopNavigation :: "Screen \<Rightarrow> Screen" where
  "stopNavigation s = s\<lparr>navigationInterval := False\<rparr>"

definition clearMapData :: "Screen \<Rightarrow> Screen" where
  "clearMapData s =
     s\<lparr>fullRouteCoords := [], visibleRouteCoords := [], travelledRoute := [],
       remainingRoute := [], nearestPointIndex := 0, travelledKm := 0, lastCoord := None,
       distanceSinceOtp := 0, lastLocationBeforeOtp := None,
       otpVerificationLocation := None\<rparr>"

text \<open>
  \<^verbatim>\<open>saveRideState\<close> is memoised on every state variable that it writes: it writes the
  values of the render \<open>seen\<close> of the function that calls it, and the two refs as they are
  when it is called.
\<close>

definition snapshotOf :: "Render \<Rightarrow> Screen \<Rightarrow> RideSnapshot" where
  "snapshotOf seen s =
     \<lparr>snap_ride = ride seen, snap_userData = userData seen,
      snap_rideStatus = rideStatus seen, snap_driverStatus = driverStatus seen,
      snap_travelledKm = travelledKm seen,
      snap_distanceSinceOtp = distanceSinceOtp s,
      snap_lastLocationBeforeOtp = lastLocationBeforeOtp s,
      snap_otpVerificationLocation = otpVerificationLocation seen,
      snap_fullRouteCoords = fullRouteCoords seen,
      snap_visibleRouteCoords = visibleRouteCoords seen,
      snap_lastCoord = lastCoord seen,
      snap_riderDetailsVisible = riderDetailsVisible seen\<rparr>"

definition saveRideState :: "Render \<Rightarrow> Screen \<Rightarrow> Screen" where
  "saveRideState seen s = s\<lparr>storedRideState := Some (snapshotOf seen s)\<rparr>"

definition clearRideState :: "Screen \<Rightarrow> Screen" where
  "clearRideState s = s\<lparr>storedRideState := None\<rparr>"

text \<open>\<^verbatim>\<open>a || b\<close> on strings that may be missing: the empty string is falsy.\<close>

definition orElse :: "string option \<Rightarrow> string \<Rightarrow> string" where
  "orElse a b = (case a of None \<Rightarrow> b | Some x \<Rightarrow> if x = [] then b else x)"

definition fetchPassengerData :: "RideType \<Rightarrow> UserDataType" where
  "fetchPassengerData rideData =
     \<lparr>name = orElse (userName rideData) ''Passenger'',
      mobile = orElse (userMobile rideData) ''N/A'',
      ud_location = pickup rideData,
      userId = Some (rideId rideData),
      rating = Some 4.8\<rparr>"

subsection \<open>Accepting a ride\<close>

text \<open>\<^verbatim>\<open>rideId || ride?.rideId\<close>, \<open>None\<close> when the result is falsy.\<close>

definition currentRideIdOf :: "Render \<Rightarrow> string option \<Rightarrow> string option" where
  "currentRideIdOf seen arg =
     (let fromRide = (case ride seen of None \<Rightarrow> None
                      | Some r \<Rightarrow> if rideId r = [] then None else Some (rideId r))
      in case arg of None \<Rightarrow> fromRide
         | Some a \<Rightarrow> if a = [] then fromRide else Some a)"

definition acceptRidePayload :: "Render \<Rightarrow> string \<Rightarrow> json" where
  "acceptRidePayload seen rid =
     JObj [(''rideId'', JStr rid), (''driverId'', JStr (driverId seen)),
           (''driverName'', JStr (driverName seen)),
           (''driverLat'', (case location seen of None \<Rightarrow> JUndefined
                            | Some l \<Rightarrow> JNum (latitude l))),
           (''driverLng'', (case location seen of None \<Rightarrow> JUndefined
                            | Some l \<Rightarrow> JNum (longitude l))),
           (''vehicleType'', (case driverVehicleType seen of None \<Rightarrow> JNull
                              | Some v \<Rightarrow> JStr v))]"

text \<open>
  \<^verbatim>\<open>acceptRide\<close>, as the closure of the render \<open>seen\<close> that runs in the state \<open>s\<close>: the
  ride, the driver, the position and the two flags of the guard are the ones of the render,
  the setters work on the state. The module's \<^verbatim>\<open>socket\<close> is a constant object, so the
  branch for a missing socket is never taken. On a disconnected socket a handler is left for
  the next \<^verbatim>\<open>connect\<close>; on a connected one the request is emitted and its acknowledgement
  callback is left waiting.
\<close>

definition acceptRide :: "Render \<Rightarrow> Screen \<Rightarrow> string option \<Rightarrow> Screen" where
  "acceptRide seen s arg =
     (case currentRideIdOf seen arg of
        None \<Rightarrow> alert ''Error'' ''No ride ID available. Please try again.'' s
      | Some rid \<Rightarrow>
          if driverId seen = [] then alert ''Error'' ''Driver not properly registered.'' s
          else if acceptButtonDisabled seen \<or> isAccepting seen then s
          else
            let s1 = s\<lparr>acceptButtonDisabled := True, isAccepting := True,
                       pendingAcceptRideId := Some rid\<rparr>
            in if \<not> socket_connected s then
                 (alert ''Connection Error'' ''Reconnecting to server...'' s1)
                   \<lparr>reconnectCalls := reconnectCalls s + 1,
                    connectHandlers := connectHandlers s @ [(rid, seen)]\<rparr>
               else
                 let s2 = s1\<lparr>isLoading := True\<rparr>;
                     s3 = (case ride seen of
                             Some r \<Rightarrow>
                               if userData seen = None
                               then s2\<lparr>userData := Some (fetchPassengerData r),
                                       riderDetailsVisible := True\<rparr>
                               else s2
                           | None \<Rightarrow> s2)
                 in (emit ''acceptRide'' (acceptRidePayload seen rid) s3)
                      \<lparr>pendingAccepts := pendingAccepts s @ [(rid, seen)]\<rparr>)"

record AcceptResponse =
  success :: bool
  rideCancelled :: bool
  alreadyAccepted :: bool
  message :: "string option"
  resp_pricePerKm :: "real option"
  resp_userId :: "string option"

text \<open>
  The acknowledgement callback of the request for \<open>rid\<close>, a closure of the render \<open>seen\<close>,
  with the response and the route that \<^verbatim>\<open>fetchRoute\<close> gave (\<open>None\<close> when it gave none or
  threw). On success, when the render has no passenger data and no ride,
  \<^verbatim>\<open>fetchPassengerData(ride!)\<close> throws on the \<^verbatim>\<open>null\<close> ride and the rest of the callback
  does not run. The update of the route of the ride is a functional one, on the ride of
  the state.
\<close>

definition acceptRideCallback ::
  "Render \<Rightarrow> Screen \<Rightarrow> string \<Rightarrow> AcceptResponse \<Rightarrow> LatLng list option \<Rightarrow> Screen" where
  "acceptRideCallback seen s rid response pickupRoute =
     (let s1 = s\<lparr>isLoading := False, isAccepting := False, pendingAcceptRideId := None\<rparr>
      in if \<not> isMounted s then s1\<lparr>acceptButtonDisabled := False\<rparr>
         else if success response then
           let s2 = updateRideStatus ''accepted'' (rideIdOrEmpty seen)
                      (s1\<lparr>rideStatus := Accepted, driverStatus := OnRide,
                          otpVerified := False, locationHistory := [],
                          liveTripDistance := 0\<rparr>);
               s3 = (case resp_pricePerKm response of
                       None \<Rightarrow> s2
                     | Some p \<Rightarrow> if p = 0 then s2 else s2\<lparr>pricePerKm := p\<rparr>)
           in if userData seen = None \<and> ride seen = None then s3
              else
                let s4 = (if userData seen = None
                          then s3\<lparr>userData := map_option fetchPassengerData (ride seen)\<rparr>
                          else s3);
                    s5 = (if location seen = None then s4
                          else case pickupRoute of
                                 None \<Rightarrow> s4
                               | Some rt \<Rightarrow>
                                   s4\<lparr>ride := map_option (\<lambda>r. r\<lparr>routeCoords := Some rt\<rparr>)
                                                (ride s)\<rparr>);
                    s6 = emit ''driverAcceptedRide''
                           (JObj [(''rideId'', JStr rid), (''driverId'', JStr (driverId seen)),
                                  (''userId'', jOptStr (resp_userId response)),
                                  (''driverLocation'',
                                     (case location seen of None \<Rightarrow> JNull
                                      | Some l \<Rightarrow> jLatLng l))])
                        (emit ''rideTakenByDriver''
                           (JObj [(''rideId'', JStr rid), (''driverId'', JStr (driverId seen)),
                                  (''driverName'', JStr (driverName seen))])
                           (s5\<lparr>riderDetailsVisible := True\<rparr>))
                in (saveRideState seen s6)\<lparr>acceptButtonDisabled := False\<rparr>
         else if rideCancelled response then
           alert ''Ride Cancelled''
             ''Unfortunately, this ride has been cancelled by the user. Please wait for the next booking request.''
             (clearMapData (hideRiderDetails
                (s1\<lparr>ride := None, rideStatus := Idle, driverStatus := Online,
                    acceptButtonDisabled := False\<rparr>)))
         else if alreadyAccepted response then
           alert ''Ride Unavailable'' ''This ride has already been accepted by another driver.''
             (clearMapData (hideRiderDetails
                (s1\<lparr>ride := None, rideStatus := Idle, driverStatus := Online,
                    acceptButtonDisabled := False\<rparr>)))
         else
           alert ''Error'' (orElse (message response) ''Unable to accept ride. Please try again.'')
             (s1\<lparr>rideStatus := Idle, driverStatus := Online, acceptButtonDisabled := False\<rparr>))"

text \<open>
  The handler that \<^verbatim>\<open>acceptRide\<close> leaves for \<^verbatim>\<open>connect\<close> starts a timer of one second; when
  it fires, the lock is put down and the \<^verbatim>\<open>acceptRide\<close> of the same render is called
  again for the same ride.
\<close>

definition acceptRetry :: "Render \<Rightarrow> Screen \<Rightarrow> string \<Rightarrow> Screen" where
  "acceptRetry seen s rid =
     acceptRide seen (s\<lparr>acceptButtonDisabled := False, isAccepting := False\<rparr>) (Some rid)"

text \<open>\<^verbatim>\<open>rejectRide\<close>, as the closure of the render \<open>seen\<close>.\<close>

definition rejectRide :: "Render \<Rightarrow> Screen \<Rightarrow> string option \<Rightarrow> Screen" where
  "rejectRide seen s arg =
     (case currentRideIdOf seen arg of
        None \<Rightarrow> s
      | Some rid \<Rightarrow>
          alert ''Ride Rejected'' ''You rejected the ride''
            (emit ''rejectRide''
               (JObj [(''rideId'', JStr rid), (''driverId'', JStr (driverId seen))])
               (hideRiderDetails
                  ((clearMapData s)\<lparr>ride := None, rideStatus := Idle, driverStatus := Online,
                                    userData := None\<rparr>))))"

text \<open>
  \<^verbatim>\<open>handleRideRequest\<close>, as the closure of the render \<open>memo\<close> in which it was memoised, for
  an offer already parsed into a ride; \<open>sameVehicle\<close> says that the vehicle types of the
  request and of the driver do not differ. The alert it raises is left open with the id of
  the ride and the render \<open>memo\<close>: its buttons call \<^verbatim>\<open>rejectRide(rideData.rideId)\<close> and
  \<^verbatim>\<open>acceptRide(rideData.rideId)\<close> of that render.
\<close>

definition handleRideRequest :: "Render \<Rightarrow> Screen \<Rightarrow> RideType \<Rightarrow> bool \<Rightarrow> Screen" where
  "handleRideRequest memo s rideData sameVehicle =
     (if \<not> isMounted s \<or> rideId rideData = [] \<or> \<not> isDriverOnline memo then s
      else if \<not> sameVehicle then s
      else (alert ''New Ride Request!'' (rideId rideData)
              (s\<lparr>ride := Some rideData, rideStatus := OnTheWay,
                 userData := Some (fetchPassengerData rideData),
                 riderDetailsVisible := True\<rparr>))
             \<lparr>rideAlerts := rideAlerts s @ [(rideId rideData, memo)]\<rparr>)"

subsection \<open>Starting the trip\<close>

text \<open>
  \<^verbatim>\<open>confirmOTP\<close>, the button of the OTP window. A matching code starts a timer of 100 ms
  that will run the \<^verbatim>\<open>proceedWithTripStartSafe\<close> of this render with the start point.
\<close>

definition confirmOTP :: "Screen \<Rightarrow> Screen" where
  "confirmOTP s =
     (case ride s of
        None \<Rightarrow> s
      | Some r \<Rightarrow>
          if otp r = None \<or> otp r = Some [] then
            alert ''Error'' ''OTP not yet received from server.'' s
          else if length (enteredOtp s) \<noteq> 4 then
            alert ''Invalid OTP'' ''Please enter a 4-digit OTP.'' s
          else if otpVerifying s then s
          else
            case (case location s of Some l \<Rightarrow> Some l | None \<Rightarrow> lastCoord s) of
              None \<Rightarrow> alert ''Error'' ''Unable to get current location. Please try again.'' s
            | Some startPoint \<Rightarrow>
                if Some (enteredOtp s) \<noteq> otp r then
                  alert ''Invalid OTP''
                    ''The OTP you entered is incorrect. Please check with the customer.''
                    (s\<lparr>enteredOtp := []\<rparr>)
                else
                  s\<lparr>otpVerifying := True, otpModalVisible := False, enteredOtp := [],
                    tripStartTimers := tripStartTimers s @ [(startPoint, rendered s)]\<rparr>)"

definition storeOtpLocationPayload :: "Render \<Rightarrow> LatLng \<Rightarrow> json" where
  "storeOtpLocationPayload s startPoint =
     JObj [(''rideId'', jOptStr (map_option rideId (ride s))),
           (''driverId'', JStr (driverId s)),
           (''latitude'', JNum (latitude startPoint)),
           (''longitude'', JNum (longitude startPoint)),
           (''pricePerKm'',
              JNum (let fromRide = (case ride s of None \<Rightarrow> None
                                     | Some r \<Rightarrow>
                                        (case ride_pricePerKm r of
                                           Some p \<Rightarrow> if p = 0 then farePerKm r else Some p
                                         | None \<Rightarrow> farePerKm r))
                    in case fromRide of
                         Some p \<Rightarrow> if p = 0 then (if pricePerKm s = 0 then 40 else pricePerKm s)
                                   else p
                       | None \<Rightarrow> if pricePerKm s = 0 then 40 else pricePerKm s))]"

text \<open>
  The four messages of \<^verbatim>\<open>emitTripStartEvents\<close> on a connected socket, with the time stamp
  as a parameter and the values read from the render \<open>seen\<close>.
\<close>

definition emitTripStartEvents :: "string \<Rightarrow> LatLng \<Rightarrow> Render \<Rightarrow> Screen \<Rightarrow> Screen" where
  "emitTripStartEvents now startPoint seen s =
     (let rid = jOptStr (map_option rideId (ride seen)); did = JStr (driverId seen)
      in emit ''verifyRideOTP''
           (JObj [(''rideId'', rid), (''driverId'', did),
                  (''otp'', (case ride seen of None \<Rightarrow> JUndefined | Some r \<Rightarrow> jOptStr (otp r))),
                  (''verificationLocation'', jLatLngShort startPoint)])
        (emit ''driverStartedRide''
           (JObj [(''rideId'', rid), (''driverId'', did),
                  (''driverLocation'', jLatLng startPoint), (''otpVerified'', JBool True),
                  (''timestamp'', JStr now)])
        (emit ''otpVerified''
           (JObj [(''rideId'', rid), (''driverId'', did), (''timestamp'', JStr now),
                  (''driverLocation'', jLatLng startPoint)])
        (emit ''rideStarted''
           (JObj [(''rideId'', rid), (''driverId'', did),
                  (''startLocation'', jLatLngShort startPoint)]) s))))"

text \<open>
  \<^verbatim>\<open>proceedWithTripStartSafe\<close>, run by the timer as a closure of the render \<open>seen\<close> in
  which \<^verbatim>\<open>confirmOTP\<close> ran: the ride, the driver and the price are those of that render,
  and so is what \<^verbatim>\<open>saveRideState\<close> writes. Nothing in it looks at the ride or the status
  that the state has by then.
\<close>

definition proceedWithTripStartSafe :: "string \<Rightarrow> Render \<Rightarrow> Screen \<Rightarrow> LatLng \<Rightarrow> Screen" where
  "proceedWithTripStartSafe now seen s startPoint =
     (let s1 = s\<lparr>otpVerified := True, otpVerifying := False, rideStatus := Started,
                 travelledKm := 0, distanceSinceOtp := 0,
                 lastLocationBeforeOtp := Some startPoint,
                 otpVerificationLocation := Some startPoint,
                 tripStartLocation := Some startPoint, locationHistory := [startPoint],
                 liveTripDistance := 0, travelledRoute := [], remainingRoute := [],
                 riderDetailsVisible := True,
                 requests := requests s @
                   [(''/rides/store-otp-location'', storeOtpLocationPayload seen startPoint)]\<rparr>;
          s2 = updateRideStatus ''started'' (rideIdOrEmpty seen) s1;
          s3 = (if socket_connected s then emitTripStartEvents now startPoint seen s2 else s2)
      in saveRideState seen s3)"

text \<open>\<^verbatim>\<open>handleRideOTP\<close>: the server sends the code of the ride.\<close>

definition handleRideOTP :: "Screen \<Rightarrow> string \<Rightarrow> string option \<Rightarrow> Screen" where
  "handleRideOTP s dataRideId dataOtp =
     (if \<not> isMounted s then s
      else case ride s of
             None \<Rightarrow> s
           | Some r \<Rightarrow> if rideId r = dataRideId then s\<lparr>ride := Some (r\<lparr>otp := dataOtp\<rparr>)\<rparr>
                       else s)"

subsection \<open>Cancellation and other drivers\<close>

definition handleRideCancelled :: "Screen \<Rightarrow> string \<Rightarrow> Screen" where
  "handleRideCancelled s dataRideId =
     (if \<not> isMounted s then s
      else case ride s of
             None \<Rightarrow> s
           | Some r \<Rightarrow>
               if rideId r \<noteq> dataRideId then s
               else if rideStatus s = OnTheWay then s
               else
                 let s1 = emit ''driverRideCancelled''
                            (JObj [(''rideId'', JStr (rideId r)), (''driverId'', JStr (driverId s)),
                                   (''userId'', (case userData s of None \<Rightarrow> JUndefined
                                                 | Some u \<Rightarrow> jOptStr (userId u)))])
                            (stopNavigation s);
                     s2 = hideRiderDetails
                            ((clearMapData s1)\<lparr>ride := None, userData := None,
                               rideStatus := Idle, driverStatus := Online\<rparr>)
                 in alert ''Ride Cancelled'' ''The passenger cancelled the ride.''
                      (clearRideState s2))"

definition handleRideAlreadyAccepted :: "Screen \<Rightarrow> string \<Rightarrow> Screen" where
  "handleRideAlreadyAccepted s dataRideId =
     (if \<not> isMounted s then s
      else case ride s of
             None \<Rightarrow> s
           | Some r \<Rightarrow>
               if rideId r \<noteq> dataRideId then s
               else hideRiderDetails
                      ((clearMapData s)\<lparr>ride := None, userData := None, rideStatus := Idle,
                                        driverStatus := Online\<rparr>))"

definition handleRideTakenByDriver ::
  "Screen \<Rightarrow> string \<Rightarrow> string \<Rightarrow> string option \<Rightarrow> Screen" where
  "handleRideTakenByDriver s dataRideId dataDriverId dataMessage =
     (if \<not> isMounted s then s
      else if dataDriverId = driverId s then s
      else
        let s1 = alert ''Ride Already Taken''
                   (orElse dataMessage
                      ''This ride has already been accepted by another driver. Please wait for the next ride request.'')
                   s
        in case ride s of
             None \<Rightarrow> s1
           | Some r \<Rightarrow>
               if rideId r \<noteq> dataRideId then s1
               else hideRiderDetails
                      ((clearMapData s1)\<lparr>ride := None, userData := None, rideStatus := Idle,
                                         driverStatus := Online\<rparr>))"

definition handleDisconnect :: "Screen \<Rightarrow> Screen" where
  "handleDisconnect s =
     (if \<not> isMounted s then s
      else if ride s = None then s
      else alert ''Connection Lost'' ''Reconnecting to server...'' (s\<lparr>userData := None\<rparr>))"

subsection \<open>Completing the ride\<close>

text \<open>
  \<^verbatim>\<open>completeRide\<close>: after its checks it stops navigation and raises the confirmation
  dialog, whose button \<^verbatim>\<open>Complete\<close> will submit the final position.
\<close>

definition completeRide :: "Screen \<Rightarrow> Screen" where
  "completeRide s =
     (if rideStatus s \<noteq> Started then
        alert ''Cannot Complete'' ''Ride must be started to complete.'' s
      else if ride s = None then alert ''Error'' ''Ride data is missing.'' s
      else case location s of
             None \<Rightarrow> alert ''Error'' ''Current location is missing. Please wait for GPS.'' s
           | Some l \<Rightarrow> (stopNavigation s)\<lparr>completeDialogs := completeDialogs s @ [l]\<rparr>)"

text \<open>
  The two payloads of \<^verbatim>\<open>submitRideCompletion\<close>: the socket event
  \<^verbatim>\<open>driverCompletedRide\<close> and the body of the POST to
  \<^verbatim>\<open>/rides/complete-with-calculation\<close>.
\<close>

definition completionEventPayload :: "string \<Rightarrow> Screen \<Rightarrow> LatLng \<Rightarrow> json" where
  "completionEventPayload now s finalLocation =
     JObj [(''rideId'', jOptStr (map_option rideId (ride s))),
           (''driverId'', JStr (driverId s)),
           (''actualDrop'', jLatLngShort finalLocation),
           (''timestamp'', JStr now)]"

definition completionRequestBody :: "Screen \<Rightarrow> LatLng \<Rightarrow> json" where
  "completionRequestBody s finalLocation =
     JObj [(''rideId'', jOptStr (map_option rideId (ride s))),
           (''driverId'', JStr (driverId s)),
           (''completedLatitude'', JNum (latitude finalLocation)),
           (''completedLongitude'', JNum (longitude finalLocation))]"

text \<open>
  \<^verbatim>\<open>submitRideCompletion\<close> up to the point where it waits for the answer of the server.
\<close>

definition submitRideCompletion :: "string \<Rightarrow> Screen \<Rightarrow> LatLng \<Rightarrow> Screen" where
  "submitRideCompletion now s finalLocation =
     (let s1 = updateRideStatus ''online'' []
                 (s\<lparr>rideStatus := Completed, driverStatus := Online\<rparr>);
          s2 = (if socket_connected s
                then emit ''driverCompletedRide'' (completionEventPayload now s finalLocation) s1
                else s1)
      in s2\<lparr>requests := requests s @
               [(''/rides/complete-with-calculation'', completionRequestBody s finalLocation)],
             completionRequests := completionRequests s @ [finalLocation]\<rparr>)"

text \<open>
  What the request comes back with: a failure of the transport, an answer that is not a
  success (with its message), or the data of the bill.
\<close>

record CompletionData =
  data_distance :: real
  data_fare :: real
  data_pricePerKm :: real
  data_calculation :: "string option"
  data_driverShare :: "real option"
  data_companyShare :: "real option"

datatype CompletionResult =
    TransportError "string option"
  | NotSuccess "string option"
  | Success CompletionData

text \<open>\<^verbatim>\<open>Math.round\<close>\<close>

definition jsRound :: "real \<Rightarrow> real" where
  "jsRound x = of_int \<lfloor>x + 1 / 2\<rfloor>"

text \<open>
  The bill made of the data of the server; \<open>str\<close> is the conversion of a number to a string
  that a template literal applies.
\<close>

definition billFromServer :: "(real \<Rightarrow> string) \<Rightarrow> Screen \<Rightarrow> CompletionData \<Rightarrow> BillDetails" where
  "billFromServer str s d =
     \<lparr>bill_distance = str (data_distance d) @ '' km'',
      travelTime = str (jsRound (data_distance d * 3)) @ '' mins'',
      charge = data_fare d,
      bill_userName = orElse (map_option name (userData s)) ''Customer'',
      bill_userMobile = orElse (map_option mobile (userData s)) ''N/A'',
      baseFare = data_fare d,
      timeCharge = 0,
      tax = 0,
      bill_pricePerKm = data_pricePerKm d,
      calculation = Some
        (case data_calculation d of
           None \<Rightarrow> CalcTemplate (data_distance d) (data_pricePerKm d) (data_fare d)
         | Some c \<Rightarrow> if c = []
                     then CalcTemplate (data_distance d) (data_pricePerKm d) (data_fare d)
                     else CalcText c),
      pickupAddress =
        orElse (case ride s of None \<Rightarrow> None | Some r \<Rightarrow> address (pickup r)) ''Pickup'',
      dropoffAddress =
        orElse (case ride s of None \<Rightarrow> None | Some r \<Rightarrow> address (dropoff r)) ''Drop-off'',
      driverShare = data_driverShare d,
      companyShare = data_companyShare d\<rparr>"

text \<open>
  The rest of \<^verbatim>\<open>submitRideCompletion\<close>, for the request made with \<open>finalLocation\<close>: the bill
  on success, the error dialog (with \<^verbatim>\<open>Retry\<close> and \<^verbatim>\<open>Cancel\<close>) otherwise.
\<close>

definition completionAnswered ::
  "(real \<Rightarrow> string) \<Rightarrow> Screen \<Rightarrow> LatLng \<Rightarrow> CompletionResult \<Rightarrow> Screen" where
  "completionAnswered str s finalLocation result =
     (case result of
        Success d \<Rightarrow>
          (clearMapData (hideRiderDetails s))
            \<lparr>billDetails := Some (billFromServer str s d), showBillModal := True\<rparr>
      | NotSuccess m \<Rightarrow>
          (alert ''Completion Error''
             (''Failed to complete ride: '' @ orElse m ''Failed to complete ride'' @
              [CHR 0x0A, CHR 0x0A] @ ''Please try again or contact support.'') s)
            \<lparr>completionErrors := completionErrors s @ [finalLocation]\<rparr>
      | TransportError m \<Rightarrow>
          (alert ''Completion Error''
             (''Failed to complete ride: '' @ orElse m ''Server error'' @
              [CHR 0x0A, CHR 0x0A] @ ''Please try again or contact support.'') s)
            \<lparr>completionErrors := completionErrors s @ [finalLocation]\<rparr>)"

text \<open>The button \<^verbatim>\<open>Cancel\<close> of the error dialog.\<close>

definition revertCompletion :: "Screen \<Rightarrow> Screen" where
  "revertCompletion s = s\<lparr>rideStatus := Started, driverStatus := OnRide\<rparr>"

record BillAlertData =
  alert_rideId :: string
  alert_fare :: real
  alert_distance :: real
  alert_pricePerKm :: real
  alert_driverShare :: "real option"
  alert_companyShare :: "real option"
  alert_pickupAddress :: "string option"
  alert_dropoffAddress :: "string option"

definition handleBillAlert :: "(real \<Rightarrow> string) \<Rightarrow> Screen \<Rightarrow> BillAlertData \<Rightarrow> Screen" where
  "handleBillAlert str s d =
     (if \<not> isMounted s then s
      else case ride s of
             None \<Rightarrow> s
           | Some r \<Rightarrow>
               if rideId r \<noteq> alert_rideId d then s
               else
                 let bill =
                       \<lparr>bill_distance = str (alert_distance d) @ '' km'',
                        travelTime = str (jsRound (alert_distance d * 3)) @ '' mins'',
                        charge = alert_fare d,
                        bill_userName = orElse (map_option name (userData s)) ''Customer'',
                        bill_userMobile = orElse (map_option mobile (userData s)) ''N/A'',
                        baseFare = alert_fare d,
                        timeCharge = 0,
                        tax = 0,
                        bill_pricePerKm = alert_pricePerKm d,
                        calculation = None,
                        pickupAddress =
                          orElse (alert_pickupAddress d)
                            (orElse (address (pickup r)) ''Pickup''),
                        dropoffAddress =
                          orElse (alert_dropoffAddress d)
                            (orElse (address (dropoff r)) ''Drop-off''),
                        driverShare = alert_driverShare d,
                        companyShare = alert_companyShare d\<rparr>;
                     s1 = (hideRiderDetails s)\<lparr>billDetails := Some bill, showBillModal := True,
                            rideStatus := Completed, driverStatus := Online\<rparr>
                 in clearMapData (stopNavigation s1))"

definition handleBillModalClose :: "Screen \<Rightarrow> Screen" where
  "handleBillModalClose s =
     (let s1 = s\<lparr>ride := None, userData := None, otpVerificationLocation := None,
                 rideStatus := Idle, driverStatus := Online, otpVerified := False,
                 otpVerifying := False, tripStartLocation := None, locationHistory := [],
                 liveTripDistance := 0, pricePerKm := 0, acceptButtonDisabled := False,
                 distanceSinceOtp := 0, lastLocationBeforeOtp := None, travelledKm := 0,
                 lastCoord := None\<rparr>
      in (clearRideState (hideRiderDetails (clearMapData s1)))\<lparr>showBillModal := False\<rparr>)"

definition handleBillModalConfirm :: "Screen \<Rightarrow> Screen" where
  "handleBillModalConfirm s =
     (clearRideState (hideRiderDetails (clearMapData
        (s\<lparr>ride := None, userData := None, otpVerificationLocation := None,
           rideStatus := Idle, driverStatus := Online\<rparr>))))\<lparr>showBillModal := False\<rparr>"

subsection \<open>Answers of the backend to the OTP\<close>

definition handleOtpVerificationSuccess :: "Screen \<Rightarrow> string \<Rightarrow> Screen" where
  "handleOtpVerificationSuccess s dataRideId =
     (if \<not> isMounted s then s
      else case ride s of
             None \<Rightarrow> s
           | Some r \<Rightarrow>
               if rideId r \<noteq> dataRideId then s
               else
                 let s1 = s\<lparr>otpVerified := True, otpVerifying := False\<rparr>
                 in case location s of
                      None \<Rightarrow> s1
                    | Some l \<Rightarrow> s1\<lparr>tripStartLocation := Some l, locationHistory := [l],
                                   liveTripDistance := 0\<rparr>)"

definition handleOtpVerificationFailed :: "Screen \<Rightarrow> string \<Rightarrow> string option \<Rightarrow> Screen" where
  "handleOtpVerificationFailed s dataRideId dataMessage =
     (if \<not> isMounted s then s
      else case ride s of
             None \<Rightarrow> s
           | Some r \<Rightarrow>
               if rideId r \<noteq> dataRideId then s
               else alert ''Invalid OTP''
                      (orElse dataMessage ''Please check with the customer and try again.'')
                      (s\<lparr>otpVerifying := False, enteredOtp := []\<rparr>))"

subsection \<open>Location updates\<close>

definition OFF_ROUTE_THRESHOLD :: real where "OFF_ROUTE_THRESHOLD = 30"

text \<open>
  \<^verbatim>\<open>handleLocationUpdate\<close>, for a new position and what \<^verbatim>\<open>getRouteWithDetails\<close> gives if it
  is asked for a new route (\<open>None\<close> when it gives none). The off-route check is the one of
  \<^verbatim>\<open>RouteService.ts\<close>, the cut of the route the one of \<^verbatim>\<open>SmoothPolyline.ts\<close>, started at
  the index that the check found. The handler runs to its end before
  the next one starts, so the flag \<^verbatim>\<open>offRouteReFetchInProgress\<close> is down whenever it is
  read. Saving the position to the database and the speed are left out.
\<close>

definition handleLocationUpdate :: "Screen \<Rightarrow> LatLng \<Rightarrow> LatLng list option \<Rightarrow> Screen" where
  "handleLocationUpdate s newLocation newRouteData =
     (if \<not> isMounted s then s
      else
        let s1 = s\<lparr>location := Some newLocation\<rparr>;
            isNavigating = (rideStatus s = Accepted \<or> rideStatus s = Started);
            s2 = (if isNavigating \<and> ride s \<noteq> None \<and> length (fullRouteCoords s) > 0 then
                    let offRouteCheck =
                          isDriverOffRoute newLocation (fullRouteCoords s) OFF_ROUTE_THRESHOLD
                            (nearestPointIndex s)
                    in if isOffRoute offRouteCheck then
                         (case newRouteData of
                            None \<Rightarrow> s1
                          | Some coords \<Rightarrow>
                              s1\<lparr>fullRouteCoords := coords, visibleRouteCoords := coords,
                                 nearestPointIndex := 0\<rparr>)
                       else
                         let segments =
                               splitRouteAtDriver_smooth newLocation (fullRouteCoords s)
                                 (off_nearestIndex offRouteCheck)
                         in s1\<lparr>visibleRouteCoords := remaining_smooth segments,
                               travelledRoute := travelled_smooth segments,
                               nearestPointIndex := nearestIndex_smooth segments\<rparr>
                  else s1)
        in s2\<lparr>lastCoord := Some newLocation\<rparr>)"

subsection \<open>The stored snapshot\<close>

text \<open>The effect that saves the ride state whenever it changes.\<close>

definition saveRideStateEffect :: "Screen \<Rightarrow> Screen" where
  "saveRideStateEffect s =
     (if ride s \<noteq> None \<and> (rideStatus s = Accepted \<or> rideStatus s = Started)
      then saveRideState (rendered s) s else s)"

text \<open>
  What the backend says of a stored ride when \<^verbatim>\<open>restoreRideState\<close> asks: nothing (no
  token, no ride id, no answer), that the ride is still valid, or that it is over or unknown.
\<close>

datatype BackendCheck = NoAnswer | StillValid | NoLongerValid

definition restoreRideState :: "Screen \<Rightarrow> BackendCheck \<Rightarrow> Screen" where
  "restoreRideState s check =
     (case storedRideState s of
        None \<Rightarrow> s
      | Some st \<Rightarrow>
          if snap_rideStatus st = Completed then clearRideState s
          else if snap_ride st \<noteq> None \<and>
                  (snap_rideStatus st = Accepted \<or> snap_rideStatus st = Started) then
            if check = NoLongerValid then clearRideState s
            else
              s\<lparr>ride := snap_ride st, userData := snap_userData st,
                rideStatus := snap_rideStatus st, driverStatus := snap_driverStatus st,
                travelledKm := snap_travelledKm st,
                distanceSinceOtp := snap_distanceSinceOtp st,
                lastLocationBeforeOtp := snap_lastLocationBeforeOtp st,
                otpVerificationLocation := snap_otpVerificationLocation st,
                fullRouteCoords := snap_fullRouteCoords st,
                visibleRouteCoords := snap_visibleRouteCoords st,
                lastCoord := snap_lastCoord st,
                riderDetailsVisible := (snap_userData st \<noteq> None)\<rparr>
          else s)"

subsection \<open>The heartbeat of the socket\<close>

text \<open>
  One tick of the 7-second heartbeat, as far as reconnection goes: on the counter
  \<^verbatim>\<open>socketReconnectAttempts\<close>, given whether the socket is connected at the tick and whether
  it is 2.5 s after \<^verbatim>\<open>reconnectSocket()\<close>. The result says whether \<^verbatim>\<open>reconnectSocket()\<close> was
  called, with the counter after the tick.
\<close>

definition maxReconnectAttempts :: nat where "maxReconnectAttempts = 10"

definition heartbeatTick :: "nat \<Rightarrow> bool \<Rightarrow> bool \<Rightarrow> bool \<times> nat" where
  "heartbeatTick attempts isConnected reconnected =
     (if \<not> isConnected then
        let a = attempts + 1
        in if a \<le> maxReconnectAttempts then (True, if reconnected then 0 else a)
           else (False, 0)
      else (False, 0))"

text \<open>
  A run of ticks that all find the socket disconnected and unable to reconnect: the list of
  what each tick did, from a counter.
\<close>

fun failingTicks :: "nat \<Rightarrow> nat \<Rightarrow> bool list" where
  "failingTicks 0 attempts = []"
| "failingTicks (Suc n) attempts =
     fst (heartbeatTick attempts False False) #
     failingTicks n (snd (heartbeatTick attempts False False))"

subsection \<open>Events\<close>

text \<open>
  What can happen to the component, one constructor for each handler, button, timer and
  callback above. A time stamp or a route that the handler reads from outside comes with
  the event, and the press of a button of a ride-request alert comes with the position of
  the alert among the open ones.
\<close>

datatype Event =
    EvRideRequest RideType bool
  | EvAlertAccept nat
  | EvAlertReject nat
  | EvAcceptButton
  | EvRejectButton
  | EvAcceptResponse AcceptResponse "LatLng list option"
  | EvSocketConnect
  | EvSocketDisconnect
  | EvRetryTimer
  | EvOpenOtp
  | EvEnterOtp string
  | EvConfirmOTP
  | EvTripStartTimer string
  | EvRideOTP string "string option"
  | EvRideCancelled string
  | EvRideAlreadyAccepted string
  | EvRideTakenByDriver string string "string option"
  | EvCompleteRide
  | EvPressComplete string
  | EvPressCancel
  | EvCompletionAnswer CompletionResult
  | EvPressRetry string
  | EvPressRevert
  | EvBillAlert BillAlertData
  | EvBillModalClose
  | EvBillModalConfirm
  | EvOtpVerificationSuccess string
  | EvOtpVerificationFailed string "string option"
  | EvLocationUpdate LatLng "LatLng list option"
  | EvSaveEffect
  | EvRestore BackendCheck
  | EvUnmount

text \<open>
  One event. A callback, timer or button that is not waiting does nothing; of the callbacks
  and timers the oldest one waiting is the one that runs. A button of a ride-request alert
  closes its alert and runs \<^verbatim>\<open>acceptRide\<close> or \<^verbatim>\<open>rejectRide\<close> as the alert holds it, with
  the id of the ride of the alert. The buttons \<^verbatim>\<open>Accept Ride\<close> and \<^verbatim>\<open>Reject\<close> of the screen
  are there while a ride is offered (the first is disabled while \<^verbatim>\<open>isLoading\<close>), and call
  the functions of the current render with no argument; the button that opens the OTP
  window is there while a ride is accepted.
\<close>

fun step :: "(real \<Rightarrow> string) \<Rightarrow> Screen \<Rightarrow> Event \<Rightarrow> Screen" where
  "step str s (EvRideRequest rideData sameVehicle) =
     (case requestListener s of
        None \<Rightarrow> s
      | Some memo \<Rightarrow> handleRideRequest memo s rideData sameVehicle)"
| "step str s (EvAlertAccept n) =
     (if n < length (rideAlerts s)
      then acceptRide (snd (rideAlerts s ! n))
             (s\<lparr>rideAlerts := take n (rideAlerts s) @ drop (Suc n) (rideAlerts s)\<rparr>)
             (Some (fst (rideAlerts s ! n)))
      else s)"
| "step str s (EvAlertReject n) =
     (if n < length (rideAlerts s)
      then rejectRide (snd (rideAlerts s ! n))
             (s\<lparr>rideAlerts := take n (rideAlerts s) @ drop (Suc n) (rideAlerts s)\<rparr>)
             (Some (fst (rideAlerts s ! n)))
      else s)"
| "step str s EvAcceptButton =
     (if ride s \<noteq> None \<and> rideStatus s = OnTheWay \<and> \<not> isLoading s
      then acceptRide (rendered s) s None else s)"
| "step str s EvRejectButton =
     (if ride s \<noteq> None \<and> rideStatus s = OnTheWay
      then rejectRide (rendered s) s None else s)"
| "step str s (EvAcceptResponse response pickupRoute) =
     (case pendingAccepts s of
        [] \<Rightarrow> s
      | (rid, seen) # rest \<Rightarrow>
          acceptRideCallback seen (s\<lparr>pendingAccepts := rest\<rparr>) rid response pickupRoute)"
| "step str s EvSocketConnect =
     s\<lparr>socket_connected := True, retryTimers := retryTimers s @ connectHandlers s,
       connectHandlers := []\<rparr>"
| "step str s EvSocketDisconnect = handleDisconnect (s\<lparr>socket_connected := False\<rparr>)"
| "step str s EvRetryTimer =
     (case retryTimers s of
        [] \<Rightarrow> s
      | (rid, seen) # rest \<Rightarrow> acceptRetry seen (s\<lparr>retryTimers := rest\<rparr>) rid)"
| "step str s EvOpenOtp =
     (if ride s \<noteq> None \<and> rideStatus s = Accepted then s\<lparr>otpModalVisible := True\<rparr> else s)"
| "step str s (EvEnterOtp text) = s\<lparr>enteredOtp := text\<rparr>"
| "step str s EvConfirmOTP = confirmOTP s"
| "step str s (EvTripStartTimer now) =
     (case tripStartTimers s of
        [] \<Rightarrow> s
      | (startPoint, seen) # rest \<Rightarrow>
          proceedWithTripStartSafe now seen (s\<lparr>tripStartTimers := rest\<rparr>) startPoint)"
| "step str s (EvRideOTP dataRideId dataOtp) = handleRideOTP s dataRideId dataOtp"
| "step str s (EvRideCancelled dataRideId) = handleRideCancelled s dataRideId"
| "step str s (EvRideAlreadyAccepted dataRideId) = handleRideAlreadyAccepted s dataRideId"
| "step str s (EvRideTakenByDriver dataRideId dataDriverId dataMessage) =
     handleRideTakenByDriver s dataRideId dataDriverId dataMessage"
| "step str s EvCompleteRide = completeRide s"
| "step str s (EvPressComplete now) =
     (case completeDialogs s of
        [] \<Rightarrow> s
      | l # rest \<Rightarrow> submitRideCompletion now (s\<lparr>completeDialogs := rest\<rparr>) l)"
| "step str s EvPressCancel = s\<lparr>completeDialogs := tl (completeDialogs s)\<rparr>"
| "step str s (EvCompletionAnswer result) =
     (case completionRequests s of
        [] \<Rightarrow> s
      | l # rest \<Rightarrow> completionAnswered str (s\<lparr>completionRequests := rest\<rparr>) l result)"
| "step str s (EvPressRetry now) =
     (case completionErrors s of
        [] \<Rightarrow> s
      | l # rest \<Rightarrow> submitRideCompletion now (s\<lparr>completionErrors := rest\<rparr>) l)"
| "step str s EvPressRevert =
     (case completionErrors s of
        [] \<Rightarrow> s
      | l # rest \<Rightarrow> revertCompletion (s\<lparr>completionErrors := rest\<rparr>))"
| "step str s (EvBillAlert d) = handleBillAlert str s d"
| "step str s EvBillModalClose = handleBillModalClose s"
| "step str s EvBillModalConfirm = handleBillModalConfirm s"
| "step str s (EvOtpVerificationSuccess dataRideId) = handleOtpVerificationSuccess s dataRideId"
| "step str s (EvOtpVerificationFailed dataRideId dataMessage) =
     handleOtpVerificationFailed s dataRideId dataMessage"
| "step str s (EvLocationUpdate newLocation newRouteData) =
     handleLocationUpdate s newLocation newRouteData"
| "step str s EvSaveEffect = saveRideStateEffect s"
| "step str s (EvRestore check) = restoreRideState s check"
| "step str s EvUnmount = s\<lparr>isMounted := False\<rparr>"

definition run :: "(real \<Rightarrow> string) \<Rightarrow> Screen \<Rightarrow> Event list \<Rightarrow> Screen" where
  "run str s evs = foldl (step str) s evs"

subsection \<open>Notions of the claims\<close>

text \<open>The accept requests among the messages emitted.\<close>

definition acceptRequests :: "Screen \<Rightarrow> (string \<times> json) list" where
  "acceptRequests s = filter (\<lambda>m. fst m = ''acceptRide'') (emitted s)"

text \<open>
  The entered code is the code of the current ride and has four characters: what
  \<^verbatim>\<open>confirmOTP\<close> compares.
\<close>

definition otpMatches :: "Screen \<Rightarrow> bool" where
  "otpMatches s =
     (case ride s of
        None \<Rightarrow> False
      | Some r \<Rightarrow> otp r = Some (enteredOtp s) \<and> length (enteredOtp s) = 4)"

text \<open>The names of the fields of an object.\<close>

fun jsonKeys :: "json \<Rightarrow> string list" where
  "jsonKeys (JObj kvs) = map fst kvs"
| "jsonKeys j = []"

fun jsonField :: "json \<Rightarrow> string \<Rightarrow> json" where
  "jsonField (JObj kvs) k = (case map_of kvs k of None \<Rightarrow> JUndefined | Some v \<Rightarrow> v)"
| "jsonField j k = JUndefined"

text \<open>
  Two rides, and a driver at the origin who has gone online, with a connected socket: the
  render in which \<^verbatim>\<open>handleRideRequest\<close> was memoised is the one of going online. The same
  driver on the first ride, accepted.
\<close>

definition demoRide :: RideType where
  "demoRide =
     \<lparr>rideId = ''R1'', otp = Some ''1234'',
      pickup = \<lparr>latitude = 0, longitude = 0, address = None\<rparr>,
      dropoff = \<lparr>latitude = 0, longitude = 90, address = None\<rparr>,
      routeCoords = None, userName = None, userMobile = None,
      ride_pricePerKm = None, farePerKm = None\<rparr>"

definition demoRide2 :: RideType where
  "demoRide2 =
     \<lparr>rideId = ''R2'', otp = Some ''9999'',
      pickup = \<lparr>latitude = 0, longitude = 90, address = None\<rparr>,
      dropoff = \<lparr>latitude = 0, longitude = 0, address = None\<rparr>,
      routeCoords = None, userName = None, userMobile = None,
      ride_pricePerKm = None, farePerKm = None\<rparr>"

definition demoScreen :: Screen where
  "demoScreen =
     memoised
       ((initialScreen ''D1'' ''Driver'' (Some origin))
          \<lparr>isDriverOnline := True, socket_connected := True, driverStatus := Online\<rparr>)"

definition demoAccepted :: Screen where
  "demoAccepted =
     demoScreen\<lparr>ride := Some demoRide, rideStatus := Accepted, driverStatus := OnRide\<rparr>"

definition demoData :: CompletionData where
  "demoData =
     \<lparr>data_distance = 12, data_fare = 480, data_pricePerKm = 40, data_calculation = None,
      data_driverShare = None, data_companyShare = None\<rparr>"

definition demoStr :: "real \<Rightarrow> string" where
  "demoStr x = []"

text \<open>
  The driver is offered the ride \<^verbatim>\<open>R1\<close> and presses \<^verbatim>\<open>Accept\<close> on the alert: the request
  is waiting for its answer. Then the ride \<^verbatim>\<open>R2\<close> is offered, or \<^verbatim>\<open>R1\<close> once more, and the
  driver presses \<^verbatim>\<open>Accept\<close> on the new alert.
\<close>

definition demoFlight :: Screen where
  "demoFlight = run demoStr demoScreen [EvRideRequest demoRide True, EvAlertAccept 0]"

definition demoOther :: Screen where
  "demoOther = run demoStr demoFlight [EvRideRequest demoRide2 True, EvAlertAccept 0]"

definition demoAgain :: Screen where
  "demoAgain = run demoStr demoFlight [EvRideRequest demoRide True, EvAlertAccept 0]"

definition demoOk :: AcceptResponse where
  "demoOk =
     \<lparr>success = True, rideCancelled = False, alreadyAccepted = False, message = None,
      resp_pricePerKm = None, resp_userId = None\<rparr>"

text \<open>
  The driver of the accepted ride \<^verbatim>\<open>R1\<close> opens the OTP window, enters the code of \<^verbatim>\<open>R1\<close>
  and confirms it; before the timer of 100 ms fires, the ride \<^verbatim>\<open>R2\<close> is offered.
\<close>

definition demoConfirmed :: Screen where
  "demoConfirmed = run demoStr demoAccepted [EvOpenOtp, EvEnterOtp ''1234'', EvConfirmOTP]"

definition demoSwap :: Screen where
  "demoSwap =
     run demoStr demoConfirmed [EvRideRequest demoRide2 True, EvTripStartTimer ''now'']"

section \<open>Verified properties\<close>

subsection \<open>Distances at concrete points\<close>

lemma calculateDistance_same: "calculateDistance a b a b = 0"
  by (simp add: calculateDistance_def atan2_def)

lemma calculateDistance_quarter: "calculateDistance 0 0 0 90 = 6371000 * pi / 2"
  by (simp add: calculateDistance_def atan2_def Let_def sin_45 cos_45 arctan_one)

lemma getDistanceInMeters_same:
  "latitude a = latitude b \<Longrightarrow> longitude a = longitude b \<Longrightarrow> getDistanceInMeters a b = 0"
  by (simp add: getDistanceInMeters_def atan2_def)

lemma getDistanceInMeters_quarter: "getDistanceInMeters origin quarterTurn = 6371000 * pi / 2"
  by (simp add: getDistanceInMeters_def origin_def quarterTurn_def atan2_def Let_def
      sin_45 cos_45 arctan_one)

subsection \<open>The location tracker\<close>

text \<open>
  C5. A call of \<^verbatim>\<open>processLocation\<close> whose new smoothed point is less than 5 m from the
  stored last position returns \<^verbatim>\<open>null\<close> and leaves the accumulated distance and the stored
  last position as they were. The smoothing buffer is not left as it was: the fix has been
  pushed to it before the filter runs (unless the fix was dropped for its accuracy).
\<close>

theorem processLocation_jitter_rejected:
  assumes "lastValidLocation t = Some l"
    and "calculateDistance (latitude l) (longitude l)
           (smoothed latitude (pushBuffer (locationBuffer t)
              \<lparr>latitude = lat, longitude = lng, timestamp = ts, accuracy = acc\<rparr>) lat)
           (smoothed longitude (pushBuffer (locationBuffer t)
              \<lparr>latitude = lat, longitude = lng, timestamp = ts, accuracy = acc\<rparr>) lng)
         < 5"
  shows "fst (processLocation t (Some lat) (Some lng) ts acc) = None \<and>
         trk_totalDistance (snd (processLocation t (Some lat) (Some lng) ts acc)) =
           trk_totalDistance t \<and>
         lastValidLocation (snd (processLocation t (Some lat) (Some lng) ts acc)) =
           lastValidLocation t \<and>
         locationBuffer (snd (processLocation t (Some lat) (Some lng) ts acc)) =
           (if (case acc of None \<Rightarrow> False | Some a \<Rightarrow> a > maxAccuracyThreshold)
            then locationBuffer t
            else pushBuffer (locationBuffer t)
                   \<lparr>latitude = lat, longitude = lng, timestamp = ts, accuracy = acc\<rparr>)"
  using assms
  by (simp add: processLocation_def isValidLocation_def minDistanceThreshold_def Let_def
      split: option.splits)

lemma jitterTracker_smoothed:
  "smoothed f (pushBuffer (locationBuffer jitterTracker)
     \<lparr>latitude = 0, longitude = 0, timestamp = 1000, accuracy = None\<rparr>) 0 = (f
       \<lparr>latitude = 0, longitude = 0, timestamp = 0, accuracy = None\<rparr> + f
       \<lparr>latitude = 0, longitude = 0, timestamp = 1000, accuracy = None\<rparr>) / 2"
  by (simp add: jitterTracker_def pushBuffer_def smoothed_def smoothingBufferSize_def)

theorem processLocation_jitter_rejected_witness:
  "fst (processLocation jitterTracker (Some 0) (Some 0) 1000 None) = None \<and>
   trk_totalDistance (snd (processLocation jitterTracker (Some 0) (Some 0) 1000 None)) = 0 \<and>
   lastValidLocation (snd (processLocation jitterTracker (Some 0) (Some 0) 1000 None)) =
     Some \<lparr>latitude = 0, longitude = 0, timestamp = 0, accuracy = None\<rparr>"
proof -
  have l: "lastValidLocation jitterTracker =
           Some \<lparr>latitude = 0, longitude = 0, timestamp = 0, accuracy = None\<rparr>"
    by (simp add: jitterTracker_def)
  have d: "calculateDistance
             (latitude \<lparr>latitude = 0, longitude = 0, timestamp = 0, accuracy = None\<rparr>)
             (longitude \<lparr>latitude = 0, longitude = 0, timestamp = 0, accuracy = None\<rparr>)
             (smoothed latitude (pushBuffer (locationBuffer jitterTracker)
                \<lparr>latitude = 0, longitude = 0, timestamp = 1000, accuracy = None\<rparr>) 0)
             (smoothed longitude (pushBuffer (locationBuffer jitterTracker)
                \<lparr>latitude = 0, longitude = 0, timestamp = 1000, accuracy = None\<rparr>) 0)
           < 5"
    by (simp add: jitterTracker_smoothed calculateDistance_same)
  from processLocation_jitter_rejected [OF l d]
  show ?thesis by (simp add: jitterTracker_def)
qed

text \<open>
  The claim as stated fails: the call below is a jitter rejection (distance 0), and the
  tracker after it is not the tracker before it, its buffer holding one fix more.
\<close>

theorem processLocation_jitter_counterexample:
  "fst (processLocation jitterTracker (Some 0) (Some 0) 1000 None) = None \<and>
   calculateDistance 0 0 0 0 < 5 \<and>
   locationBuffer jitterTracker =
     [\<lparr>latitude = 0, longitude = 0, timestamp = 0, accuracy = None\<rparr>] \<and>
   locationBuffer (snd (processLocation jitterTracker (Some 0) (Some 0) 1000 None)) =
     [\<lparr>latitude = 0, longitude = 0, timestamp = 0, accuracy = None\<rparr>,
      \<lparr>latitude = 0, longitude = 0, timestamp = 1000, accuracy = None\<rparr>] \<and>
   snd (processLocation jitterTracker (Some 0) (Some 0) 1000 None) \<noteq> jitterTracker"
  by (simp add: processLocation_def jitterTracker_def isValidLocation_def pushBuffer_def
      smoothed_def smoothingBufferSize_def calculateDistance_same minDistanceThreshold_def
      Let_def)






text \<open>
  The distance does grow: after a first fix at the origin, a fix a long way east a long time
  later is accepted, and the accumulated distance is the quarter of the great circle to the
  smoothed position.
\<close>

lemma getCurrentDistance_grows:
  "getCurrentDistance
     (processAll (newTracker 0) [(Some 0, Some 0, 0, None), (Some 0, Some 180, 10 ^ 9, None)]) =
   6371000 * pi / 2"
proof -
  have p2: "2 \<le> pi" by (rule pi_ge_two)
  have p4: "pi < 4" by (rule pi_less_4)
  have "\<not> 6371000 * pi / 2 < 5" using p2 by simp
  moreover have "\<not> 6371000 * pi / 2 / (10 ^ 9 / 1000) > 50" using p4 by simp
  ultimately show ?thesis
    by (simp add: processAll_def processFix_def processLocation_def newTracker_def
        isValidLocation_def pushBuffer_def smoothed_def smoothingBufferSize_def
        calculateDistance_same calculateDistance_quarter minDistanceThreshold_def
        maxSpeedThreshold_def getCurrentDistance_def Let_def)
qed

subsection \<open>Nearest point on a route\<close>

lemma upt_0_2: "[0..<2] = [0, Suc 0]"
  by (simp add: upt_rec)

lemma findNearestPointOnRoute_two_points:
  assumes "hint \<le> 5"
  shows "findNearestPointOnRoute p [a, b] hint radius =
     (if getDistanceInMeters p a \<le> getDistanceInMeters p b
      then \<lparr>index = 0, np_distance = Fin (getDistanceInMeters p a)\<rparr>
      else \<lparr>index = 1, np_distance = Fin (getDistanceInMeters p b)\<rparr>)"
proof -
  have s: "hint - 5 = 0" using assms by simp
  consider "hint + radius = 0" | "hint + radius = 1" | "hint + radius \<ge> 2"
    by linarith
  then show ?thesis
  proof cases
    case 1
    then have "hint = 0" "radius = 0" by simp_all
    then show ?thesis
      by (simp add: findNearestPointOnRoute_def scanRoute_def scanStep_def Let_def upt_0_2)
  next
    case 2
    then have e: "min (length [a, b]) (hint + radius) = 1" by simp
    show ?thesis
      unfolding findNearestPointOnRoute_def Let_def e s
      by (simp add: scanRoute_def scanStep_def upt_rec)
  next
    case 3
    then have e: "min (length [a, b]) (hint + radius) = 2" by simp
    show ?thesis
      unfolding findNearestPointOnRoute_def Let_def e s
      by (simp add: scanRoute_def scanStep_def upt_0_2)
  qed
qed

text \<open>
  C8. On an empty route \<^verbatim>\<open>findNearestPointOnRoute\<close> returns index 0 and distance
  \<^verbatim>\<open>Infinity\<close>, for every position, hint index and search radius. On a two-point route,
  with a hint index of at most 5 (the default 0 and both valid indices among them) and any
  search radius, it returns the index and the distance of the closer end point, index 0 when
  both are equally far.
\<close>

theorem findNearestPointOnRoute_edge_cases:
  "findNearestPointOnRoute p [] hint radius = \<lparr>index = 0, np_distance = Infinity\<rparr> \<and>
   (hint \<le> 5 \<longrightarrow>
    findNearestPointOnRoute p [a, b] hint radius =
      (if getDistanceInMeters p a \<le> getDistanceInMeters p b
       then \<lparr>index = 0, np_distance = Fin (getDistanceInMeters p a)\<rparr>
       else \<lparr>index = 1, np_distance = Fin (getDistanceInMeters p b)\<rparr>))"
  using findNearestPointOnRoute_two_points [of hint p a b radius]
  by (simp add: findNearestPointOnRoute_def)

theorem findNearestPointOnRoute_edge_cases_witness:
  "findNearestPointOnRoute origin [] 0 defaultSearchRadius =
     \<lparr>index = 0, np_distance = Infinity\<rparr> \<and>
   findNearestPointOnRoute origin [origin, quarterTurn] 0 defaultSearchRadius =
     \<lparr>index = 0, np_distance = Fin 0\<rparr> \<and>
   findNearestPointOnRoute quarterTurn [origin, quarterTurn] 1 defaultSearchRadius =
     \<lparr>index = 1, np_distance = Fin 0\<rparr>"
proof -
  have d: "getDistanceInMeters quarterTurn origin = 6371000 * pi / 2"
    by (simp add: getDistanceInMeters_def origin_def quarterTurn_def atan2_def Let_def
        sin_45 cos_45 arctan_one)
  have p: "\<not> pi \<le> 0" using pi_gt_zero by (simp add: not_le)
  have a: "findNearestPointOnRoute origin [] 0 defaultSearchRadius =
             \<lparr>index = 0, np_distance = Infinity\<rparr> \<and>
           findNearestPointOnRoute origin [origin, quarterTurn] 0 defaultSearchRadius =
             \<lparr>index = 0, np_distance = Fin 0\<rparr>"
    using findNearestPointOnRoute_edge_cases [of origin 0 defaultSearchRadius origin quarterTurn]
    by (simp add: getDistanceInMeters_same getDistanceInMeters_quarter)
  have b: "findNearestPointOnRoute quarterTurn [origin, quarterTurn] 1 defaultSearchRadius =
             \<lparr>index = 1, np_distance = Fin 0\<rparr>"
    using findNearestPointOnRoute_edge_cases [of quarterTurn 1 defaultSearchRadius origin quarterTurn]
    by (simp add: getDistanceInMeters_same d p)
  from a b show ?thesis by simp
qed

text \<open>
  The claim as stated, for every hint index, fails: with the hint 6 the scan of a two-point
  route starts at index 1 and never looks at index 0, so index 1 is returned for a position
  that is on the first end point.
\<close>

theorem findNearestPointOnRoute_counterexample:
  "index (findNearestPointOnRoute origin [origin, quarterTurn] 6 defaultSearchRadius) = 1 \<and>
   getDistanceInMeters origin origin < getDistanceInMeters origin quarterTurn"
  by (simp add: findNearestPointOnRoute_def scanRoute_def scanStep_def Let_def upt_rec
      defaultSearchRadius_def getDistanceInMeters_quarter getDistanceInMeters_same)

subsection \<open>Splitting a route at the driver\<close>

lemma scanStep_cases:
  "scanStep p r acc i = acc \<or> (\<exists>d. scanStep p r acc i = (Fin d, i))"
  by (simp add: scanStep_def Let_def)

lemma scanRoute_Suc:
  "a \<le> b \<Longrightarrow> scanRoute p r a (Suc b) acc = scanStep p r (scanRoute p r a b acc) b"
  by (simp add: scanRoute_def)

lemma scanRoute_inv:
  "scanRoute p r a b acc = acc \<or>
   (a \<le> snd (scanRoute p r a b acc) \<and> snd (scanRoute p r a b acc) < b \<and>
    fst (scanRoute p r a b acc) \<noteq> Infinity)"
proof (induction b)
  case 0
  then show ?case by (simp add: scanRoute_def)
next
  case (Suc b)
  show ?case
  proof (cases "a \<le> b")
    case False
    then show ?thesis by (simp add: scanRoute_def)
  next
    case True
    from scanStep_cases [of p r "scanRoute p r a b acc" b] Suc True
    show ?thesis
      unfolding scanRoute_Suc [OF True] by (elim disjE exE) auto
  qed
qed

lemma scanRoute_first:
  assumes "a < b"
  shows "a \<le> snd (scanRoute p r a b (Infinity, k)) \<and>
         snd (scanRoute p r a b (Infinity, k)) < b \<and>
         fst (scanRoute p r a b (Infinity, k)) \<noteq> Infinity"
proof -
  have u: "[a..<b] = a # [Suc a..<b]" using assms by (simp add: upt_rec)
  have "scanRoute p r a b (Infinity, k) =
        scanRoute p r (Suc a) b (Fin (getDistanceInMeters p (r ! a)), a)"
    by (simp add: scanRoute_def u scanStep_def)
  with scanRoute_inv [of p r "Suc a" b "(Fin (getDistanceInMeters p (r ! a)), a)"] assms
  show ?thesis by auto
qed

lemma findNearestPointOnRoute_index_valid:
  assumes "hint < length route"
  shows "index (findNearestPointOnRoute p route hint radius) < length route"
proof -
  define e where "e = min (length route) (hint + radius)"
  define r1 where "r1 = scanRoute p route (hint - 5) e (Infinity, hint)"
  have e: "e \<le> length route" by (simp add: e_def)
  have r1: "snd r1 < length route"
  proof (cases "hint - 5 < e")
    case True
    from scanRoute_first [OF True, of p route hint] e show ?thesis by (simp add: r1_def)
  next
    case False
    then have "r1 = (Infinity, hint)" by (simp add: r1_def scanRoute_def)
    with assms show ?thesis by simp
  qed
  have r2: "snd (scanRoute p route e (length route) r1) < length route"
    using scanRoute_inv [of p route e "length route" r1] r1 by auto
  have ne: "route \<noteq> []" using assms by auto
  show ?thesis
    using r1 r2 ne
    by (simp add: findNearestPointOnRoute_def Let_def e_def [symmetric] r1_def [symmetric])
qed

lemma clamp_closest:
  fixes u s :: real
  assumes "0 \<le> s" "s \<le> 1"
  shows "(max 0 (min 1 u) - u)\<^sup>2 \<le> (s - u)\<^sup>2"
proof -
  have "\<bar>max 0 (min 1 u) - u\<bar> \<le> \<bar>s - u\<bar>" using assms by (auto simp: max_def min_def)
  then show ?thesis by (simp add: abs_le_square_iff)
qed

lemma sqDist_pointAt:
  fixes dx dy :: real
  assumes N: "dx * dx + dy * dy \<noteq> 0"
    and dx: "dx = longitude b - longitude a" and dy: "dy = latitude b - latitude a"
    and u: "u = ((longitude p - longitude a) * dx + (latitude p - latitude a) * dy) /
                (dx * dx + dy * dy)"
  shows "sqDist p (pointAt a b s) =
         sqDist p a - (dx * dx + dy * dy) * u\<^sup>2 + (dx * dx + dy * dy) * (s - u)\<^sup>2"
proof -
  have nu: "(dx * dx + dy * dy) * u =
            (longitude p - longitude a) * dx + (latitude p - latitude a) * dy"
    using N u by simp
  have "sqDist p (pointAt a b s) =
        sqDist p a - 2 * s * ((longitude p - longitude a) * dx + (latitude p - latitude a) * dy)
          + s\<^sup>2 * (dx * dx + dy * dy)"
    by (simp add: sqDist_def pointAt_def dx dy power2_eq_square algebra_simps)
  also have "\<dots> = sqDist p a - 2 * s * ((dx * dx + dy * dy) * u) + s\<^sup>2 * (dx * dx + dy * dy)"
    by (simp only: nu)
  also have "\<dots> = sqDist p a - (dx * dx + dy * dy) * u\<^sup>2 + (dx * dx + dy * dy) * (s - u)\<^sup>2"
    by (simp add: power2_eq_square algebra_simps)
  finally show ?thesis .
qed

text \<open>
  What \<^verbatim>\<open>projectPointOnSegment\<close> computes: a point of the segment, and the one closest to
  the projected point.
\<close>

lemma projectPointOnSegment_on_segment:
  "\<exists>t. 0 \<le> t \<and> t \<le> 1 \<and> projectPointOnSegment p a b = pointAt a b t"
proof (cases "longitude b - longitude a = 0 \<and> latitude b - latitude a = 0")
  case True
  then have "projectPointOnSegment p a b = pointAt a b 0"
    by (simp add: projectPointOnSegment_def pointAt_def)
  then show ?thesis by (intro exI [of _ 0]) simp
next
  case False
  let ?u = "((longitude p - longitude a) * (longitude b - longitude a) +
            (latitude p - latitude a) * (latitude b - latitude a)) /
           ((longitude b - longitude a) * (longitude b - longitude a) +
            (latitude b - latitude a) * (latitude b - latitude a))"
  have "projectPointOnSegment p a b = pointAt a b (max 0 (min 1 ?u))"
    using False by (simp add: projectPointOnSegment_def pointAt_def Let_def)
  then show ?thesis by (intro exI [of _ "max 0 (min 1 ?u)"]) simp
qed

lemma projectPointOnSegment_closest:
  assumes "0 \<le> s" "s \<le> 1"
  shows "sqDist p (projectPointOnSegment p a b) \<le> sqDist p (pointAt a b s)"
proof (cases "longitude b - longitude a = 0 \<and> latitude b - latitude a = 0")
  case True
  then show ?thesis
    by (simp add: projectPointOnSegment_def pointAt_def sqDist_def)
next
  case False
  define dx where "dx = longitude b - longitude a"
  define dy where "dy = latitude b - latitude a"
  define u where "u = ((longitude p - longitude a) * dx + (latitude p - latitude a) * dy) /
                      (dx * dx + dy * dy)"
  have N: "dx * dx + dy * dy \<noteq> 0" using False
    by (simp add: dx_def dy_def add_nonneg_eq_0_iff)
  have Np: "0 \<le> dx * dx + dy * dy" by simp
  have pr: "projectPointOnSegment p a b = pointAt a b (max 0 (min 1 u))"
    using False by (simp add: projectPointOnSegment_def pointAt_def Let_def dx_def dy_def u_def)
  have "(dx * dx + dy * dy) * (max 0 (min 1 u) - u)\<^sup>2 \<le> (dx * dx + dy * dy) * (s - u)\<^sup>2"
    using clamp_closest [OF assms, of u] Np by (rule mult_left_mono)
  then show ?thesis
    unfolding pr sqDist_pointAt [OF N dx_def dy_def u_def]
    by simp
qed

text \<open>
  C7. For a route of at least two points and a valid hint index, \<^verbatim>\<open>splitRouteAtDriver\<close>
  returns segments that share their joint: the last point of \<^verbatim>\<open>travelled\<close> is the first
  point of \<^verbatim>\<open>remaining\<close>. The index it reports as \<^verbatim>\<open>nearestIndex\<close> is the one that the
  windowed search \<^verbatim>\<open>findNearestPointOnRoute\<close> finds from the hint, and is valid;
  \<^verbatim>\<open>travelled\<close> is the route up to the vertex of that index followed by the joint,
  \<^verbatim>\<open>remaining\<close> the joint followed by the rest of the route. The joint is the projection of
  the position on the segment from the vertex of that index to the next one (to itself when
  it is the last vertex): a point of that segment, the closest to the position in plane
  coordinates. For a route of fewer than two points, whatever the hint, \<^verbatim>\<open>travelled\<close> is
  empty, \<^verbatim>\<open>remaining\<close> is the route and the index reported is 0.
\<close>

theorem splitRouteAtDriver_continuity:
  "let s = splitRouteAtDriver p route hint;
       i = index (findNearestPointOnRoute p route hint defaultSearchRadius);
       a = route ! i;
       b = route ! min (length route - 1) (i + 1);
       q = projectPointOnSegment p a b
   in (length route < 2 \<longrightarrow>
         travelled s = [] \<and> remaining s = route \<and> nearestIndex s = 0) \<and>
      (2 \<le> length route \<and> hint < length route \<longrightarrow>
         nearestIndex s = i \<and> i < length route \<and>
         travelled s = take (i + 1) route @ [q] \<and>
         remaining s = q # drop (i + 1) route \<and>
         lastOpt (travelled s) = Some q \<and>
         firstOpt (remaining s) = Some q \<and>
         (\<exists>t. 0 \<le> t \<and> t \<le> 1 \<and> q = pointAt a b t) \<and>
         (\<forall>t. 0 \<le> t \<and> t \<le> 1 \<longrightarrow> sqDist p q \<le> sqDist p (pointAt a b t)))"
proof (cases "length route < 2")
  case True
  then show ?thesis by (simp add: splitRouteAtDriver_def Let_def)
next
  case False
  show ?thesis
  proof (cases "hint < length route")
    case False
    with \<open>\<not> length route < 2\<close> show ?thesis by (simp add: Let_def)
  next
    case True
    with \<open>\<not> length route < 2\<close>
      findNearestPointOnRoute_index_valid [OF True, of p defaultSearchRadius]
      projectPointOnSegment_on_segment projectPointOnSegment_closest
    show ?thesis
      by (simp add: splitRouteAtDriver_def Let_def lastOpt_def firstOpt_def
          getInterpolatedDriverPosition_def)
  qed
qed

theorem splitRouteAtDriver_continuity_witness:
  "travelled (splitRouteAtDriver origin [origin] 0) = [] \<and>
   remaining (splitRouteAtDriver origin [origin] 0) = [origin] \<and>
   nearestIndex (splitRouteAtDriver origin [origin, quarterTurn] 0) = 0 \<and>
   travelled (splitRouteAtDriver origin [origin, quarterTurn] 0) = [origin, origin] \<and>
   remaining (splitRouteAtDriver origin [origin, quarterTurn] 0) = [origin, quarterTurn] \<and>
   lastOpt (travelled (splitRouteAtDriver origin [origin, quarterTurn] 0)) = Some origin \<and>
   firstOpt (remaining (splitRouteAtDriver origin [origin, quarterTurn] 0)) = Some origin"
proof -
  have n: "index (findNearestPointOnRoute origin [origin, quarterTurn] 0 defaultSearchRadius) = 0"
    by (simp add: findNearestPointOnRoute_two_points getDistanceInMeters_same
        getDistanceInMeters_quarter)
  have q: "projectPointOnSegment origin origin quarterTurn = origin"
    by (simp add: projectPointOnSegment_def origin_def quarterTurn_def)
  from splitRouteAtDriver_continuity [where route = "[origin]" and p = origin and hint = 0]
  have a: "travelled (splitRouteAtDriver origin [origin] 0) = [] \<and>
           remaining (splitRouteAtDriver origin [origin] 0) = [origin]"
    by (simp add: Let_def)
  from splitRouteAtDriver_continuity
    [where route = "[origin, quarterTurn]" and p = origin and hint = 0]
  have b: "nearestIndex (splitRouteAtDriver origin [origin, quarterTurn] 0) = 0 \<and>
     travelled (splitRouteAtDriver origin [origin, quarterTurn] 0) = [origin, origin] \<and>
     remaining (splitRouteAtDriver origin [origin, quarterTurn] 0) = [origin, quarterTurn] \<and>
     lastOpt (travelled (splitRouteAtDriver origin [origin, quarterTurn] 0)) = Some origin \<and>
     firstOpt (remaining (splitRouteAtDriver origin [origin, quarterTurn] 0)) = Some origin"
    by (simp add: Let_def n q lastOpt_def firstOpt_def)
  from a b show ?thesis by blast
qed

text \<open>
  The index that the search reports is the nearest among the vertices that it looks at, not
  among all: on a route of seven points with the hint 6 the scan starts at index 1, so for a
  position on the first point it reports index 1 and the joint is the second point.
\<close>

lemma splitRouteAtDriver_window:
  "nearestIndex
     (splitRouteAtDriver origin
        [origin, quarterTurn, quarterTurn, quarterTurn, quarterTurn, quarterTurn, quarterTurn]
        6) = 1 \<and>
   firstOpt (remaining
     (splitRouteAtDriver origin
        [origin, quarterTurn, quarterTurn, quarterTurn, quarterTurn, quarterTurn, quarterTurn]
        6)) = Some quarterTurn \<and>
   getDistanceInMeters origin origin = 0"
  by (simp add: splitRouteAtDriver_def findNearestPointOnRoute_def scanRoute_def scanStep_def
      Let_def upt_rec defaultSearchRadius_def getDistanceInMeters_quarter
      getDistanceInMeters_same getInterpolatedDriverPosition_def projectPointOnSegment_def
      firstOpt_def)

text \<open>
  The claim as stated, for any non-empty route, fails on a route of one point: the function
  returns an empty \<^verbatim>\<open>travelled\<close>, which has no last point, and the route as \<^verbatim>\<open>remaining\<close>.
\<close>

theorem splitRouteAtDriver_counterexample:
  "lastOpt (travelled (splitRouteAtDriver origin [origin] 0)) = None \<and>
   firstOpt (remaining (splitRouteAtDriver origin [origin] 0)) = Some origin"
  by (simp add: splitRouteAtDriver_def lastOpt_def firstOpt_def)

subsection \<open>Route simplification\<close>

lemma farStep_cases:
  "farStep r acc i = acc \<or> (snd (farStep r acc i) = i \<and> fst (farStep r acc i) > fst acc)"
  by (simp add: farStep_def Let_def)

lemma foldl_farStep_inv:
  "foldl (farStep r) acc [a..<b] = acc \<or>
   (a \<le> snd (foldl (farStep r) acc [a..<b]) \<and> snd (foldl (farStep r) acc [a..<b]) < b \<and>
    fst (foldl (farStep r) acc [a..<b]) > fst acc)"
proof (induction b)
  case 0
  then show ?case by simp
next
  case (Suc b)
  show ?case
  proof (cases "a \<le> b")
    case False
    then show ?thesis by simp
  next
    case True
    from farStep_cases [of r "foldl (farStep r) acc [a..<b]" b] Suc True
    show ?thesis by (elim disjE) auto
  qed
qed

lemma farthest_index:
  assumes "0 < fst (farthest route)"
  shows "1 \<le> snd (farthest route) \<and> snd (farthest route) + 1 < length route"
  using foldl_farStep_inv [of route "(0, 0)" 1 "length route - 1"] assms
  by (auto simp: farthest_def)

text \<open>
  With a tolerance that is not negative the recursion returns: a farthest point beyond the
  tolerance is an interior point, so both slices are shorter than the route.
\<close>

lemma simplifyRoute_endpoints:
  assumes "0 \<le> tol"
  shows "2 \<le> length route \<Longrightarrow>
     \<exists>res. simplifyRoute route tol = Some res \<and> 2 \<le> length res \<and>
           hd res = hd route \<and> last res = last route"
proof (induction "length route" arbitrary: route rule: less_induct)
  case less
  show ?case
  proof (cases "length route \<le> 2")
    case True
    then show ?thesis using less.prems by (subst simplifyRoute.simps) simp
  next
    case long: False
    then have ne: "route \<noteq> []" by auto
    show ?thesis
    proof (cases "fst (farthest route) > tol")
      case False
      then have "simplifyRoute route tol = Some [route ! 0, route ! (length route - 1)]"
        using long by (subst simplifyRoute.simps) (simp add: Let_def)
      then show ?thesis using ne by (simp add: hd_conv_nth last_conv_nth)
    next
      case True
      define i where "i = snd (farthest route)"
      from True assms have "0 < fst (farthest route)" by simp
      from farthest_index [OF this] have i: "1 \<le> i" "i + 1 < length route"
        by (simp_all add: i_def)
      have l1: "length (take (i + 1) route) < length route" "2 \<le> length (take (i + 1) route)"
        using i by simp_all
      have l2: "length (drop i route) < length route" "2 \<le> length (drop i route)"
        using i by simp_all
      from less.hyps [OF l1] obtain left where
        left: "simplifyRoute (take (i + 1) route) tol = Some left" "2 \<le> length left"
          "hd left = hd (take (i + 1) route)"
        by blast
      from less.hyps [OF l2] obtain right where
        right: "simplifyRoute (drop i route) tol = Some right" "2 \<le> length right"
          "last right = last (drop i route)"
        by blast
      have res: "simplifyRoute route tol = Some (butlast left @ right)"
        using long True left(1) right(1)
        by (subst simplifyRoute.simps) (simp add: Let_def i_def)
      have bl: "butlast left \<noteq> []" using left(2) by (cases left rule: rev_cases) auto
      have rn: "right \<noteq> []" using right(2) by auto
      have h: "hd (butlast left @ right) = hd route"
        using bl left(2,3) by (cases left) auto
      have dn: "drop i route \<noteq> []" using i by simp
      have l: "last (butlast left @ right) = last route"
        using rn right(3) dn by simp
      show ?thesis using res h l left(2) right(2) by simp
    qed
  qed
qed

lemma perpendicularDistance_onLine:
  assumes "onLine s e p" and ne: "latitude s \<noteq> latitude e \<or> longitude s \<noteq> longitude e"
  shows "perpendicularDistance p s e = 0"
proof -
  define dx where "dx = longitude e - longitude s"
  define dy where "dy = latitude e - latitude s"
  define px where "px = longitude p - longitude s"
  define py where "py = latitude p - latitude s"
  define t where "t = (px * dx + py * dy) / (dx * dx + dy * dy)"
  have N: "dx * dx + dy * dy \<noteq> 0" using ne by (auto simp: dx_def dy_def add_nonneg_eq_0_iff)
  have c: "px * dy = py * dx"
    using assms(1) by (simp add: onLine_def dx_def dy_def px_def py_def)
  have "(px * dx + py * dy) * dy = py * (dx * dx + dy * dy)"
  proof -
    have "(px * dx + py * dy) * dy = (px * dy) * dx + py * dy * dy" by (simp add: algebra_simps)
    also have "\<dots> = py * (dx * dx + dy * dy)" unfolding c by (simp add: algebra_simps)
    finally show ?thesis .
  qed
  then have ty: "t * dy = py" using N by (simp add: t_def field_simps)
  have "(px * dx + py * dy) * dx = px * (dx * dx + dy * dy)"
  proof -
    have "(px * dx + py * dy) * dx = px * dx * dx + (py * dx) * dy" by (simp add: algebra_simps)
    also have "\<dots> = px * (dx * dx + dy * dy)"
      unfolding c [symmetric] by (simp add: algebra_simps)
    finally show ?thesis .
  qed
  then have tx: "t * dx = px" using N by (simp add: t_def field_simps)
  have nz: "\<not> (dx = 0 \<and> dy = 0)" using N by auto
  have pd: "perpendicularDistance p s e =
            getDistanceInMeters p
              \<lparr>latitude = latitude s + t * dy, longitude = longitude s + t * dx\<rparr>"
    using nz by (auto simp: perpendicularDistance_def Let_def t_def dx_def dy_def px_def py_def)
  show ?thesis
    unfolding pd ty tx by (rule getDistanceInMeters_same) (simp_all add: px_def py_def)
qed

lemma foldl_farStep_zero:
  assumes "\<forall>i\<in>set xs.
             perpendicularDistance (route ! i) (route ! 0) (route ! (length route - 1)) = 0"
  shows "foldl (farStep route) (0, 0) xs = (0, 0)"
  using assms by (induction xs) (simp_all add: farStep_def)

lemma simplifyRoute_straight:
  assumes "0 \<le> tol" "2 \<le> length route" "straightLine route"
  shows "simplifyRoute route tol = Some [hd route, last route]"
proof (cases "length route \<le> 2")
  case True
  with assms(2) have "length route = 2" by simp
  then obtain a b where "route = [a, b]"
    by (metis (no_types) One_nat_def Suc_1 length_0_conv length_Suc_conv)
  then show ?thesis by (subst simplifyRoute.simps) simp
next
  case False
  then have ne: "route \<noteq> []" by auto
  have h: "hd route = route ! 0" "last route = route ! (length route - 1)"
    using ne by (simp_all add: hd_conv_nth last_conv_nth)
  have "\<forall>i\<in>set [1..<length route - 1].
          perpendicularDistance (route ! i) (route ! 0) (route ! (length route - 1)) = 0"
  proof
    fix i assume "i \<in> set [1..<length route - 1]"
    then have "i < length route" by auto
    then have "onLine (route ! 0) (route ! (length route - 1)) (route ! i)"
      using assms(3) by (simp add: straightLine_def list_all_length h)
    moreover have "latitude (route ! 0) \<noteq> latitude (route ! (length route - 1)) \<or>
                   longitude (route ! 0) \<noteq> longitude (route ! (length route - 1))"
      using assms(3) by (simp add: straightLine_def h)
    ultimately show
      "perpendicularDistance (route ! i) (route ! 0) (route ! (length route - 1)) = 0"
      by (rule perpendicularDistance_onLine)
  qed
  then have "farthest route = (0, 0)" unfolding farthest_def by (rule foldl_farStep_zero)
  then show ?thesis using False assms(1)
    by (subst simplifyRoute.simps) (simp add: Let_def h)
qed

lemma lineOf100_straight: "straightLine lineOf100"
  by (simp add: straightLine_def lineOf100_def hd_map last_map list_all_iff onLine_def)

text \<open>
  C9. For every route of at least two points and every tolerance that is not negative (the
  default tolerance is one), \<^verbatim>\<open>simplifyRoute\<close> returns, and the route it returns starts at
  the first point of the input and ends at its last point. On a straight line, 100 collinear
  points for one, it returns exactly the two end points.
\<close>

theorem simplifyRoute_preserves_endpoints:
  assumes "2 \<le> length route" and "0 \<le> tol"
  shows "\<exists>res. simplifyRoute route tol = Some res \<and>
           hd res = hd route \<and> last res = last route \<and>
           (straightLine route \<longrightarrow> res = [hd route, last route])"
  using simplifyRoute_endpoints [OF assms(2) assms(1)]
    simplifyRoute_straight [OF assms(2) assms(1)]
  by auto

theorem simplifyRoute_preserves_endpoints_witness:
  "length lineOf100 = 100 \<and> straightLine lineOf100 \<and>
   simplifyRoute lineOf100 defaultTolerance =
     Some [\<lparr>latitude = 0, longitude = 0\<rparr>, \<lparr>latitude = 99, longitude = 198\<rparr>]"
proof -
  have len: "2 \<le> length lineOf100" by (simp add: lineOf100_def)
  have tol: "0 \<le> defaultTolerance" by (simp add: defaultTolerance_def)
  have h: "hd lineOf100 = \<lparr>latitude = 0, longitude = 0\<rparr>"
    by (simp add: lineOf100_def hd_map)
  have l: "last lineOf100 = \<lparr>latitude = 99, longitude = 198\<rparr>"
    by (simp add: lineOf100_def last_map)
  from simplifyRoute_preserves_endpoints [OF len tol] lineOf100_straight
  have "simplifyRoute lineOf100 defaultTolerance = Some [hd lineOf100, last lineOf100]"
    by auto
  then have "simplifyRoute lineOf100 defaultTolerance =
             Some [\<lparr>latitude = 0, longitude = 0\<rparr>, \<lparr>latitude = 99, longitude = 198\<rparr>]"
    by (simp only: h l)
  moreover have "length lineOf100 = 100" by (simp add: lineOf100_def)
  ultimately show ?thesis using lineOf100_straight by simp
qed

subsection \<open>What the helpers leave alone\<close>

lemma alert_frame [simp]:
    "ride (alert title msg s) = ride s"
    "rideStatus (alert title msg s) = rideStatus s"
    "userData (alert title msg s) = userData s"
    "location (alert title msg s) = location s"
    "lastCoord (alert title msg s) = lastCoord s"
    "isMounted (alert title msg s) = isMounted s"
    "socket_connected (alert title msg s) = socket_connected s"
    "driverId (alert title msg s) = driverId s"
    "acceptButtonDisabled (alert title msg s) = acceptButtonDisabled s"
    "isAccepting (alert title msg s) = isAccepting s"
    "pendingAccepts (alert title msg s) = pendingAccepts s"
    "connectHandlers (alert title msg s) = connectHandlers s"
    "retryTimers (alert title msg s) = retryTimers s"
    "tripStartTimers (alert title msg s) = tripStartTimers s"
    "completeDialogs (alert title msg s) = completeDialogs s"
    "completionRequests (alert title msg s) = completionRequests s"
    "completionErrors (alert title msg s) = completionErrors s"
    "storedRideState (alert title msg s) = storedRideState s"
    "emitted (alert title msg s) = emitted s"
    "nativeAvailable (alert title msg s) = nativeAvailable s"
    "enteredOtp (alert title msg s) = enteredOtp s"
    "otpVerifying (alert title msg s) = otpVerifying s"
    "rideAlerts (alert title msg s) = rideAlerts s"
    "requestListener (alert title msg s) = requestListener s"
  by (simp_all add: alert_def)

lemma emit_frame [simp]:
    "ride (emit ev payload s) = ride s"
    "rideStatus (emit ev payload s) = rideStatus s"
    "userData (emit ev payload s) = userData s"
    "location (emit ev payload s) = location s"
    "lastCoord (emit ev payload s) = lastCoord s"
    "isMounted (emit ev payload s) = isMounted s"
    "socket_connected (emit ev payload s) = socket_connected s"
    "driverId (emit ev payload s) = driverId s"
    "acceptButtonDisabled (emit ev payload s) = acceptButtonDisabled s"
    "isAccepting (emit ev payload s) = isAccepting s"
    "pendingAccepts (emit ev payload s) = pendingAccepts s"
    "connectHandlers (emit ev payload s) = connectHandlers s"
    "retryTimers (emit ev payload s) = retryTimers s"
    "tripStartTimers (emit ev payload s) = tripStartTimers s"
    "completeDialogs (emit ev payload s) = completeDialogs s"
    "completionRequests (emit ev payload s) = completionRequests s"
    "completionErrors (emit ev payload s) = completionErrors s"
    "storedRideState (emit ev payload s) = storedRideState s"
    "nativeAvailable (emit ev payload s) = nativeAvailable s"
    "enteredOtp (emit ev payload s) = enteredOtp s"
    "otpVerifying (emit ev payload s) = otpVerifying s"
    "rideAlerts (emit ev payload s) = rideAlerts s"
    "requestListener (emit ev payload s) = requestListener s"
  by (simp_all add: emit_def)

lemma updateRideStatus_frame [simp]:
    "ride (updateRideStatus st rid s) = ride s"
    "rideStatus (updateRideStatus st rid s) = rideStatus s"
    "userData (updateRideStatus st rid s) = userData s"
    "location (updateRideStatus st rid s) = location s"
    "lastCoord (updateRideStatus st rid s) = lastCoord s"
    "isMounted (updateRideStatus st rid s) = isMounted s"
    "socket_connected (updateRideStatus st rid s) = socket_connected s"
    "driverId (updateRideStatus st rid s) = driverId s"
    "acceptButtonDisabled (updateRideStatus st rid s) = acceptButtonDisabled s"
    "isAccepting (updateRideStatus st rid s) = isAccepting s"
    "pendingAccepts (updateRideStatus st rid s) = pendingAccepts s"
    "connectHandlers (updateRideStatus st rid s) = connectHandlers s"
    "retryTimers (updateRideStatus st rid s) = retryTimers s"
    "tripStartTimers (updateRideStatus st rid s) = tripStartTimers s"
    "completeDialogs (updateRideStatus st rid s) = completeDialogs s"
    "completionRequests (updateRideStatus st rid s) = completionRequests s"
    "completionErrors (updateRideStatus st rid s) = completionErrors s"
    "storedRideState (updateRideStatus st rid s) = storedRideState s"
    "emitted (updateRideStatus st rid s) = emitted s"
    "nativeAvailable (updateRideStatus st rid s) = nativeAvailable s"
    "enteredOtp (updateRideStatus st rid s) = enteredOtp s"
    "otpVerifying (updateRideStatus st rid s) = otpVerifying s"
    "rideAlerts (updateRideStatus st rid s) = rideAlerts s"
    "requestListener (updateRideStatus st rid s) = requestListener s"
  by (simp_all add: updateRideStatus_def)

lemma hideRiderDetails_frame [simp]:
    "ride (hideRiderDetails s) = ride s"
    "rideStatus (hideRiderDetails s) = rideStatus s"
    "userData (hideRiderDetails s) = userData s"
    "location (hideRiderDetails s) = location s"
    "lastCoord (hideRiderDetails s) = lastCoord s"
    "isMounted (hideRiderDetails s) = isMounted s"
    "socket_connected (hideRiderDetails s) = socket_connected s"
    "driverId (hideRiderDetails s) = driverId s"
    "acceptButtonDisabled (hideRiderDetails s) = acceptButtonDisabled s"
    "isAccepting (hideRiderDetails s) = isAccepting s"
    "pendingAccepts (hideRiderDetails s) = pendingAccepts s"
    "connectHandlers (hideRiderDetails s) = connectHandlers s"
    "retryTimers (hideRiderDetails s) = retryTimers s"
    "tripStartTimers (hideRiderDetails s) = tripStartTimers s"
    "completeDialogs (hideRiderDetails s) = completeDialogs s"
    "completionRequests (hideRiderDetails s) = completionRequests s"
    "completionErrors (hideRiderDetails s) = completionErrors s"
    "storedRideState (hideRiderDetails s) = storedRideState s"
    "emitted (hideRiderDetails s) = emitted s"
    "nativeAvailable (hideRiderDetails s) = nativeAvailable s"
    "enteredOtp (hideRiderDetails s) = enteredOtp s"
    "otpVerifying (hideRiderDetails s) = otpVerifying s"
    "rideAlerts (hideRiderDetails s) = rideAlerts s"
    "requestListener (hideRiderDetails s) = requestListener s"
  by (simp_all add: hideRiderDetails_def)

lemma stopNavigation_frame [simp]:
    "ride (stopNavigation s) = ride s"
    "rideStatus (stopNavigation s) = rideStatus s"
    "userData (stopNavigation s) = userData s"
    "location (stopNavigation s) = location s"
    "lastCoord (stopNavigation s) = lastCoord s"
    "isMounted (stopNavigation s) = isMounted s"
    "socket_connected (stopNavigation s) = socket_connected s"
    "driverId (stopNavigation s) = driverId s"
    "acceptButtonDisabled (stopNavigation s) = acceptButtonDisabled s"
    "isAccepting (stopNavigation s) = isAccepting s"
    "pendingAccepts (stopNavigation s) = pendingAccepts s"
    "connectHandlers (stopNavigation s) = connectHandlers s"
    "retryTimers (stopNavigation s) = retryTimers s"
    "tripStartTimers (stopNavigation s) = tripStartTimers s"
    "completeDialogs (stopNavigation s) = completeDialogs s"
    "completionRequests (stopNavigation s) = completionRequests s"
    "completionErrors (stopNavigation s) = completionErrors s"
    "storedRideState (stopNavigation s) = storedRideState s"
    "emitted (stopNavigation s) = emitted s"
    "nativeAvailable (stopNavigation s) = nativeAvailable s"
    "enteredOtp (stopNavigation s) = enteredOtp s"
    "otpVerifying (stopNavigation s) = otpVerifying s"
    "rideAlerts (stopNavigation s) = rideAlerts s"
    "requestListener (stopNavigation s) = requestListener s"
  by (simp_all add: stopNavigation_def)

lemma clearMapData_frame [simp]:
    "ride (clearMapData s) = ride s"
    "rideStatus (clearMapData s) = rideStatus s"
    "userData (clearMapData s) = userData s"
    "location (clearMapData s) = location s"
    "isMounted (clearMapData s) = isMounted s"
    "socket_connected (clearMapData s) = socket_connected s"
    "driverId (clearMapData s) = driverId s"
    "acceptButtonDisabled (clearMapData s) = acceptButtonDisabled s"
    "isAccepting (clearMapData s) = isAccepting s"
    "pendingAccepts (clearMapData s) = pendingAccepts s"
    "connectHandlers (clearMapData s) = connectHandlers s"
    "retryTimers (clearMapData s) = retryTimers s"
    "tripStartTimers (clearMapData s) = tripStartTimers s"
    "completeDialogs (clearMapData s) = completeDialogs s"
    "completionRequests (clearMapData s) = completionRequests s"
    "completionErrors (clearMapData s) = completionErrors s"
    "storedRideState (clearMapData s) = storedRideState s"
    "emitted (clearMapData s) = emitted s"
    "nativeAvailable (clearMapData s) = nativeAvailable s"
    "enteredOtp (clearMapData s) = enteredOtp s"
    "otpVerifying (clearMapData s) = otpVerifying s"
    "rideAlerts (clearMapData s) = rideAlerts s"
    "requestListener (clearMapData s) = requestListener s"
  by (simp_all add: clearMapData_def)

lemma saveRideState_frame [simp]:
    "ride (saveRideState seen s) = ride s"
    "rideStatus (saveRideState seen s) = rideStatus s"
    "userData (saveRideState seen s) = userData s"
    "location (saveRideState seen s) = location s"
    "lastCoord (saveRideState seen s) = lastCoord s"
    "isMounted (saveRideState seen s) = isMounted s"
    "socket_connected (saveRideState seen s) = socket_connected s"
    "driverId (saveRideState seen s) = driverId s"
    "acceptButtonDisabled (saveRideState seen s) = acceptButtonDisabled s"
    "isAccepting (saveRideState seen s) = isAccepting s"
    "pendingAccepts (saveRideState seen s) = pendingAccepts s"
    "connectHandlers (saveRideState seen s) = connectHandlers s"
    "retryTimers (saveRideState seen s) = retryTimers s"
    "tripStartTimers (saveRideState seen s) = tripStartTimers s"
    "completeDialogs (saveRideState seen s) = completeDialogs s"
    "completionRequests (saveRideState seen s) = completionRequests s"
    "completionErrors (saveRideState seen s) = completionErrors s"
    "emitted (saveRideState seen s) = emitted s"
    "nativeAvailable (saveRideState seen s) = nativeAvailable s"
    "enteredOtp (saveRideState seen s) = enteredOtp s"
    "otpVerifying (saveRideState seen s) = otpVerifying s"
    "rideAlerts (saveRideState seen s) = rideAlerts s"
    "requestListener (saveRideState seen s) = requestListener s"
  by (simp_all add: saveRideState_def)

lemma clearRideState_frame [simp]:
    "ride (clearRideState s) = ride s"
    "rideStatus (clearRideState s) = rideStatus s"
    "userData (clearRideState s) = userData s"
    "location (clearRideState s) = location s"
    "lastCoord (clearRideState s) = lastCoord s"
    "isMounted (clearRideState s) = isMounted s"
    "socket_connected (clearRideState s) = socket_connected s"
    "driverId (clearRideState s) = driverId s"
    "acceptButtonDisabled (clearRideState s) = acceptButtonDisabled s"
    "isAccepting (clearRideState s) = isAccepting s"
    "pendingAccepts (clearRideState s) = pendingAccepts s"
    "connectHandlers (clearRideState s) = connectHandlers s"
    "retryTimers (clearRideState s) = retryTimers s"
    "tripStartTimers (clearRideState s) = tripStartTimers s"
    "completeDialogs (clearRideState s) = completeDialogs s"
    "completionRequests (clearRideState s) = completionRequests s"
    "completionErrors (clearRideState s) = completionErrors s"
    "emitted (clearRideState s) = emitted s"
    "nativeAvailable (clearRideState s) = nativeAvailable s"
    "enteredOtp (clearRideState s) = enteredOtp s"
    "otpVerifying (clearRideState s) = otpVerifying s"
    "rideAlerts (clearRideState s) = rideAlerts s"
    "requestListener (clearRideState s) = requestListener s"
  by (simp_all add: clearRideState_def)

lemma helper_effects [simp]:
    "emitted (emit ev payload s) = emitted s @ [(ev, payload)]"
    "storedRideState (clearRideState s) = None"
    "storedRideState (saveRideState seen s) = Some (snapshotOf seen s)"
    "snap_rideStatus (snapshotOf seen s) = rideStatus seen"
    "lastCoord (clearMapData s) = None"
  by (simp_all add: emit_def clearRideState_def saveRideState_def snapshotOf_def
      clearMapData_def)

subsection \<open>Reconnection\<close>

text \<open>
  C3. Reconnection is not bounded. The socket is configured with
  \<^verbatim>\<open>reconnectionAttempts: Infinity\<close>, and a disconnect by the server schedules a
  \<^verbatim>\<open>connect()\<close> one second later whenever auto-reconnect is enabled, with no count. The
  heartbeat of the screen counts its attempts up to \<^verbatim>\<open>maxReconnectAttempts\<close> = 10, but the
  tick that finds the counter at the maximum makes no attempt and sets the counter back to 0
  by itself, so that of any two consecutive ticks that find the socket disconnected at least
  one calls \<^verbatim>\<open>reconnectSocket()\<close>, whatever the counter is.
\<close>

theorem reconnection_not_bounded:
  "reconnectionAttempts socketOptions = \<infinity> \<and>
   onDisconnect True ''io server disconnect'' = Some 1000 \<and>
   heartbeatTick maxReconnectAttempts False False = (False, 0) \<and>
   (fst (heartbeatTick c False False) \<or>
    fst (heartbeatTick (snd (heartbeatTick c False False)) False False))"
  by (simp add: socketOptions_def onDisconnect_def heartbeatTick_def maxReconnectAttempts_def
      Let_def)

text \<open>
  The claim as stated fails: of twelve consecutive ticks that fail to reconnect, with no
  call of \<^verbatim>\<open>connect()\<close> by anyone, the first ten attempt a reconnect, the eleventh does not,
  and the twelfth attempts again.
\<close>

theorem reconnection_counterexample:
  "failingTicks 12 0 =
     [True, True, True, True, True, True, True, True, True, True, False, True]"
  by code_simp

subsection \<open>Cancellation of another ride\<close>

text \<open>
  C6. A \<^verbatim>\<open>rideCancelled\<close> message whose ride id is not the id of the current ride, or
  that arrives when there is no current ride, leaves the whole state of the screen as it
  was: no transition, no cleanup, nothing emitted, no alert.
\<close>

theorem handleRideCancelled_other_ride:
  assumes "map_option rideId (ride s) \<noteq> Some dataRideId"
  shows "handleRideCancelled s dataRideId = s"
  using assms by (simp add: handleRideCancelled_def split: option.splits)

theorem handleRideCancelled_other_ride_witness:
  "handleRideCancelled demoAccepted ''R2'' = demoAccepted \<and>
   handleRideCancelled demoScreen ''R1'' = demoScreen \<and>
   rideStatus (handleRideCancelled demoAccepted ''R1'') = Idle"
proof -
  have a: "map_option rideId (ride demoAccepted) \<noteq> Some ''R2''"
    by (simp add: demoAccepted_def demoRide_def)
  have b: "map_option rideId (ride demoScreen) \<noteq> Some ''R1''"
    by (simp add: demoScreen_def memoised_def initialScreen_def)
  have c: "rideStatus (handleRideCancelled demoAccepted ''R1'') = Idle"
    by (simp add: handleRideCancelled_def demoAccepted_def demoScreen_def memoised_def
        initialScreen_def demoRide_def stopNavigation_def emit_def clearMapData_def hideRiderDetails_def
        clearRideState_def alert_def Let_def)
  from handleRideCancelled_other_ride [OF a] handleRideCancelled_other_ride [OF b] c
  show ?thesis by simp
qed

subsection \<open>Completion and the bill\<close>

lemma submitRideCompletion_sends:
  "requests (submitRideCompletion now s l) =
     requests s @ [(''/rides/complete-with-calculation'', completionRequestBody s l)] \<and>
   emitted (submitRideCompletion now s l) =
     emitted s @ (if socket_connected s
                  then [(''driverCompletedRide'', completionEventPayload now s l)] else [])"
  by (simp add: submitRideCompletion_def updateRideStatus_def emit_def Let_def
      completionRequestBody_def completionEventPayload_def)

lemma completion_payload_keys:
  "jsonKeys (completionRequestBody s l) =
     [''rideId'', ''driverId'', ''completedLatitude'', ''completedLongitude''] \<and>
   jsonKeys (completionEventPayload now s l) =
     [''rideId'', ''driverId'', ''actualDrop'', ''timestamp''] \<and>
   jsonField (completionEventPayload now s l) ''actualDrop'' =
     JObj [(''lat'', JNum (latitude l)), (''lng'', JNum (longitude l))] \<and>
   jsonField (completionRequestBody s l) ''completedLatitude'' = JNum (latitude l) \<and>
   jsonField (completionRequestBody s l) ''completedLongitude'' = JNum (longitude l)"
  by (simp add: completionRequestBody_def completionEventPayload_def jLatLngShort_def)

lemma completion_payload_local:
  "completionRequestBody
     (s\<lparr>travelledKm := a, distanceSinceOtp := b, liveTripDistance := c,
        locationHistory := h, pricePerKm := p\<rparr>) l = completionRequestBody s l \<and>
   completionEventPayload now
     (s\<lparr>travelledKm := a, distanceSinceOtp := b, liveTripDistance := c,
        locationHistory := h, pricePerKm := p\<rparr>) l = completionEventPayload now s l \<and>
   billFromServer str
     (s\<lparr>travelledKm := a, distanceSinceOtp := b, liveTripDistance := c,
        locationHistory := h, pricePerKm := p\<rparr>) d = billFromServer str s d"
  by (simp add: completionRequestBody_def completionEventPayload_def billFromServer_def)

lemma completionAnswered_bill:
  "billDetails (completionAnswered str s l (Success d)) = Some (billFromServer str s d) \<and>
   showBillModal (completionAnswered str s l (Success d)) \<and>
   charge (billFromServer str s d) = data_fare d \<and>
   baseFare (billFromServer str s d) = data_fare d \<and>
   bill_pricePerKm (billFromServer str s d) = data_pricePerKm d \<and>
   bill_distance (billFromServer str s d) = str (data_distance d) @ '' km''"
  by (simp add: completionAnswered_def billFromServer_def clearMapData_def
      hideRiderDetails_def)

lemma completionAnswered_no_bill:
  "billDetails (completionAnswered str s l (NotSuccess m)) = billDetails s \<and>
   billDetails (completionAnswered str s l (TransportError m)) = billDetails s"
  by (simp add: completionAnswered_def alert_def)

text \<open>
  C4. Completing a ride sends one HTTP request and, on a connected socket, one socket
  event, and nothing else. The body of the request has the ride id, the driver id and the
  final latitude and longitude; the event has the ride id, the driver id, the final position
  and a time stamp. Neither has a field for distance, fare or location history, and neither
  depends on the distance tracked locally. The bill shown after a successful answer is made
  of the answer: its charge, base fare and price per kilometre are the fare and price of the
  server, its distance is the distance of the server followed by \<^verbatim>\<open> km\<close>, and it does not
  depend on the distance tracked locally either; without a successful answer no bill is set.
\<close>

theorem completion_backend_only:
  "requests (submitRideCompletion now s l) =
     requests s @ [(''/rides/complete-with-calculation'', completionRequestBody s l)] \<and>
   emitted (submitRideCompletion now s l) =
     emitted s @ (if socket_connected s
                  then [(''driverCompletedRide'', completionEventPayload now s l)] else []) \<and>
   jsonKeys (completionRequestBody s l) =
     [''rideId'', ''driverId'', ''completedLatitude'', ''completedLongitude''] \<and>
   jsonField (completionRequestBody s l) ''completedLatitude'' = JNum (latitude l) \<and>
   jsonField (completionRequestBody s l) ''completedLongitude'' = JNum (longitude l) \<and>
   jsonKeys (completionEventPayload now s l) =
     [''rideId'', ''driverId'', ''actualDrop'', ''timestamp''] \<and>
   jsonField (completionEventPayload now s l) ''actualDrop'' =
     JObj [(''lat'', JNum (latitude l)), (''lng'', JNum (longitude l))] \<and>
   completionRequestBody
     (s\<lparr>travelledKm := a, distanceSinceOtp := b, liveTripDistance := c,
        locationHistory := h, pricePerKm := p\<rparr>) l = completionRequestBody s l \<and>
   completionEventPayload now
     (s\<lparr>travelledKm := a, distanceSinceOtp := b, liveTripDistance := c,
        locationHistory := h, pricePerKm := p\<rparr>) l = completionEventPayload now s l \<and>
   billDetails (completionAnswered str s l (Success d)) = Some (billFromServer str s d) \<and>
   charge (billFromServer str s d) = data_fare d \<and>
   baseFare (billFromServer str s d) = data_fare d \<and>
   bill_pricePerKm (billFromServer str s d) = data_pricePerKm d \<and>
   bill_distance (billFromServer str s d) = str (data_distance d) @ '' km'' \<and>
   billFromServer str
     (s\<lparr>travelledKm := a, distanceSinceOtp := b, liveTripDistance := c,
        locationHistory := h, pricePerKm := p\<rparr>) d = billFromServer str s d \<and>
   billDetails (completionAnswered str s l (NotSuccess m)) = billDetails s \<and>
   billDetails (completionAnswered str s l (TransportError m)) = billDetails s"
  by (simp only: submitRideCompletion_sends completion_payload_keys completion_payload_local
      completionAnswered_bill completionAnswered_no_bill simp_thms)

text \<open>
  The claim as stated fails: the body of the completion request of a driver has a field
  besides the ride id and the final latitude and longitude, the driver id.
\<close>

theorem completion_payload_counterexample:
  "jsonKeys (completionRequestBody demoAccepted quarterTurn) =
     [''rideId'', ''driverId'', ''completedLatitude'', ''completedLongitude''] \<and>
   jsonField (completionRequestBody demoAccepted quarterTurn) ''driverId'' = JStr ''D1''"
  by (simp add: completionRequestBody_def demoAccepted_def demoScreen_def memoised_def
      initialScreen_def)

subsection \<open>The accept lock\<close>

text \<open>
  The guard of \<^verbatim>\<open>acceptRide\<close> reads the two flags of the render of its closure. A call
  from a render in which one of them is up changes nothing, whatever the state is; a call
  from a render in which both are down goes on, whatever the flags of the state are.
\<close>

lemma acceptRide_guard:
  assumes "acceptButtonDisabled seen \<or> isAccepting seen"
    and "currentRideIdOf seen arg \<noteq> None" and "driverId seen \<noteq> []"
  shows "acceptRide seen s arg = s"
  using assms by (auto simp: acceptRide_def)

lemma acceptRide_stale:
  assumes "\<not> acceptButtonDisabled seen" and "\<not> isAccepting seen"
    and "currentRideIdOf seen arg = Some rid" and "driverId seen \<noteq> []"
    and "socket_connected s"
  shows "emitted (acceptRide seen s arg) =
           emitted s @ [(''acceptRide'', acceptRidePayload seen rid)] \<and>
         pendingAccepts (acceptRide seen s arg) = pendingAccepts s @ [(rid, seen)]"
  using assms by (simp add: acceptRide_def Let_def split: option.splits)

lemmas demo_defs =
  demoFlight_def demoOther_def demoAgain_def demoOk_def demoRide_def demoRide2_def
  demoScreen_def memoised_def initialScreen_def rendered_def run_def

lemmas accept_defs =
  handleRideRequest_def acceptRide_def currentRideIdOf_def acceptRequests_def
  acceptRidePayload_def Let_def alert_def emit_def

lemma demoFlight_locked:
  "isAccepting demoFlight \<and> acceptButtonDisabled demoFlight \<and>
   map fst (pendingAccepts demoFlight) = [''R1''] \<and>
   map (\<lambda>m. jsonField (snd m) ''rideId'') (acceptRequests demoFlight) = [JStr ''R1'']"
  by (simp add: demo_defs accept_defs)

lemma demoFlight_current_render:
  "acceptRide (rendered demoFlight) demoFlight (Some ''R2'') = demoFlight \<and>
   acceptRide (rendered demoFlight) demoFlight (Some ''R1'') = demoFlight"
  by (simp add: demo_defs accept_defs)

lemma demoOther_requests:
  "map (\<lambda>m. jsonField (snd m) ''rideId'') (acceptRequests demoOther) =
     [JStr ''R1'', JStr ''R2''] \<and>
   map fst (pendingAccepts demoOther) = [''R1'', ''R2'']"
  by (simp add: demo_defs accept_defs)

lemma demoAgain_requests:
  "map (\<lambda>m. jsonField (snd m) ''rideId'') (acceptRequests demoAgain) =
     [JStr ''R1'', JStr ''R1''] \<and>
   map fst (pendingAccepts demoAgain) = [''R1'', ''R1'']"
  by (simp add: demo_defs accept_defs)

lemma demoFlight_answered:
  "rideStatus (step demoStr demoFlight (EvAcceptResponse demoOk None)) = Accepted \<and>
   \<not> isAccepting (step demoStr demoFlight (EvAcceptResponse demoOk None)) \<and>
   acceptButtonDisabled (step demoStr demoFlight (EvAcceptResponse demoOk None))"
  by (simp add: demo_defs accept_defs acceptRideCallback_def updateRideStatus_def
      rideIdOrEmpty_def)

text \<open>
  C1. The lock does not hold for the button \<^verbatim>\<open>Accept\<close> of a ride-request alert, which
  runs the \<^verbatim>\<open>acceptRide\<close> of the render in which \<^verbatim>\<open>handleRideRequest\<close> was memoised. A
  driver who is online is offered the ride \<^verbatim>\<open>R1\<close> and presses \<^verbatim>\<open>Accept\<close> on the alert:
  the request is emitted, its acknowledgement is waiting and both flags of the lock are up,
  so that an \<^verbatim>\<open>acceptRide\<close> of the current render, for \<^verbatim>\<open>R1\<close> or for \<^verbatim>\<open>R2\<close>, does nothing.
  When the ride \<^verbatim>\<open>R2\<close> is offered next and \<^verbatim>\<open>Accept\<close> is pressed on its alert, a second
  accept request is emitted, for \<^verbatim>\<open>R2\<close>, and two acknowledgements are waiting; when
  \<^verbatim>\<open>R1\<close> is offered once more instead, a second request for \<^verbatim>\<open>R1\<close> is emitted. And when
  the first request is answered with a success, the callback takes \<^verbatim>\<open>isAccepting\<close> down
  but stops before it enables the button again.
\<close>

theorem acceptRide_alert_not_single_flight:
  "isAccepting demoFlight \<and> acceptButtonDisabled demoFlight \<and>
   map fst (pendingAccepts demoFlight) = [''R1''] \<and>
   map (\<lambda>m. jsonField (snd m) ''rideId'') (acceptRequests demoFlight) = [JStr ''R1''] \<and>
   acceptRide (rendered demoFlight) demoFlight (Some ''R2'') = demoFlight \<and>
   acceptRide (rendered demoFlight) demoFlight (Some ''R1'') = demoFlight \<and>
   map (\<lambda>m. jsonField (snd m) ''rideId'') (acceptRequests demoOther) =
     [JStr ''R1'', JStr ''R2''] \<and>
   map fst (pendingAccepts demoOther) = [''R1'', ''R2''] \<and>
   map (\<lambda>m. jsonField (snd m) ''rideId'') (acceptRequests demoAgain) =
     [JStr ''R1'', JStr ''R1''] \<and>
   map fst (pendingAccepts demoAgain) = [''R1'', ''R1''] \<and>
   rideStatus (step demoStr demoFlight (EvAcceptResponse demoOk None)) = Accepted \<and>
   \<not> isAccepting (step demoStr demoFlight (EvAcceptResponse demoOk None)) \<and>
   acceptButtonDisabled (step demoStr demoFlight (EvAcceptResponse demoOk None))"
  by (simp only: demoFlight_locked demoFlight_current_render demoOther_requests
      demoAgain_requests demoFlight_answered simp_thms)

subsection \<open>The OTP gate\<close>

text \<open>
  \<^verbatim>\<open>confirmOTP\<close> is the gate: it starts the timer of the trip start only on a matching
  code, and on any other code it leaves everything but the alerts and the entry field as it
  was. The timer, once started, sets the status to \<^verbatim>\<open>started\<close> whatever the state is.
\<close>

lemma confirmOTP_timers:
  "tripStartTimers (confirmOTP s) \<noteq> tripStartTimers s \<longleftrightarrow>
     otpMatches s \<and> \<not> otpVerifying s \<and> (location s \<noteq> None \<or> lastCoord s \<noteq> None)"
  by (auto simp: confirmOTP_def otpMatches_def alert_def split: option.splits)

lemma alert_undo:
    "(alert title msg s)\<lparr>alerts := alerts s, enteredOtp := enteredOtp s\<rparr> = s"
    "(alert title msg (s\<lparr>enteredOtp := []\<rparr>))\<lparr>alerts := alerts s, enteredOtp := enteredOtp s\<rparr> = s"
    "s\<lparr>alerts := alerts s, enteredOtp := enteredOtp s\<rparr> = s"
  by (simp_all add: alert_def)

lemma confirmOTP_no_match:
  assumes "\<not> otpMatches s"
  shows "(confirmOTP s)\<lparr>alerts := alerts s, enteredOtp := enteredOtp s\<rparr> = s"
proof -
  have "confirmOTP s = s \<or> (\<exists>title msg. confirmOTP s = alert title msg s) \<or>
        (\<exists>title msg. confirmOTP s = alert title msg (s\<lparr>enteredOtp := []\<rparr>))"
  proof (cases "ride s")
    case None
    then show ?thesis by (simp add: confirmOTP_def)
  next
    case r: (Some r)
    show ?thesis
    proof (cases "otp r")
      case None
      then show ?thesis by (simp add: confirmOTP_def r) blast
    next
      case code: (Some code)
      show ?thesis
      proof (cases "code = [] \<or> length (enteredOtp s) \<noteq> 4 \<or> otpVerifying s")
        case True
        then show ?thesis by (simp add: confirmOTP_def r code) blast
      next
        case False
        with assms r code have ne: "enteredOtp s \<noteq> code"
          by (auto simp: otpMatches_def)
        show ?thesis
        proof (cases "location s")
          case (Some l)
          then show ?thesis using False ne by (simp add: confirmOTP_def r code) blast
        next
          case None
          then show ?thesis using False ne
            by (cases "lastCoord s") (simp add: confirmOTP_def r code, blast)+
        qed
      qed
    qed
  qed
  then show ?thesis by (elim disjE exE) (simp_all only: alert_undo)
qed

lemma proceedWithTripStartSafe_started:
  "rideStatus (proceedWithTripStartSafe now seen s l) = Started \<and>
   ride (proceedWithTripStartSafe now seen s l) = ride s"
  by (simp add: proceedWithTripStartSafe_def emitTripStartEvents_def Let_def)

lemmas demo2_defs =
  demoConfirmed_def demoSwap_def demoAccepted_def demoRide_def demoRide2_def
  demoScreen_def memoised_def initialScreen_def rendered_def run_def

lemma demoConfirmed_state:
  "rideStatus demoConfirmed = Accepted \<and> ride demoConfirmed = Some demoRide \<and>
   map fst (tripStartTimers demoConfirmed) = [origin]"
  by (simp add: demo2_defs confirmOTP_def Let_def alert_def emit_def)

lemma demoSwap_state:
  "rideStatus demoSwap = Started \<and> otpVerified demoSwap \<and>
   ride demoSwap = Some demoRide2 \<and> otp demoRide2 = Some ''9999'' \<and>
   map (\<lambda>m. (fst m, jsonField (snd m) ''rideId'', jsonField (snd m) ''otp''))
     (emitted demoSwap) =
     [(''rideStarted'', JStr ''R1'', JUndefined), (''otpVerified'', JStr ''R1'', JUndefined),
      (''driverStartedRide'', JStr ''R1'', JUndefined),
      (''verifyRideOTP'', JStr ''R1'', JStr ''1234'')]"
  by (simp add: demo2_defs confirmOTP_def handleRideRequest_def proceedWithTripStartSafe_def
      emitTripStartEvents_def updateRideStatus_def saveRideState_def rideIdOrEmpty_def
      jOptStr_def Let_def alert_def emit_def)

text \<open>
  C2. The gate can be passed with the code of another ride. The driver of the accepted
  ride \<^verbatim>\<open>R1\<close>, whose code is 1234, opens the OTP window, enters 1234 and confirms: the
  ride is still \<^verbatim>\<open>R1\<close> and accepted, and the timer of the trip start is waiting. The ride
  \<^verbatim>\<open>R2\<close>, whose code is 9999, is offered before the timer fires, and \<^verbatim>\<open>handleRideRequest\<close>
  makes it the current ride. When the timer fires, the status becomes \<^verbatim>\<open>started\<close> and the
  OTP counts as verified while the current ride is \<^verbatim>\<open>R2\<close>, whose code was never entered;
  the messages of the trip start are emitted for \<^verbatim>\<open>R1\<close>.
\<close>

theorem otp_gate_other_ride:
  "rideStatus demoConfirmed = Accepted \<and> ride demoConfirmed = Some demoRide \<and>
   map fst (tripStartTimers demoConfirmed) = [origin] \<and>
   rideStatus demoSwap = Started \<and> otpVerified demoSwap \<and>
   ride demoSwap = Some demoRide2 \<and> otp demoRide2 = Some ''9999'' \<and>
   map (\<lambda>m. (fst m, jsonField (snd m) ''rideId'', jsonField (snd m) ''otp''))
     (emitted demoSwap) =
     [(''rideStarted'', JStr ''R1'', JUndefined), (''otpVerified'', JStr ''R1'', JUndefined),
      (''driverStartedRide'', JStr ''R1'', JUndefined),
      (''verifyRideOTP'', JStr ''R1'', JStr ''1234'')]"
  by (simp only: demoConfirmed_state demoSwap_state simp_thms)

end
